theory Spec2Isabelle
  imports
    Complex_Main
    "HOL-Library.Log_Nat"
    "HOL-Library.List_Lexorder"
    "HOL-Library.Char_ord"
begin

section \<open>Strings of the JavaScript runtime\<close>

text \<open>
  A JavaScript string is a sequence of UTF-16 code units. The model uses \<open>string\<close>, whose
  characters are the code units below 256; the white space of ECMAScript in that range is
  TAB, LF, VT, FF, CR, SP and NBSP. \<open>String.prototype.trim\<close> removes white space from both
  ends.
\<close>

definition StrWhiteSpaceChar :: "char \<Rightarrow> bool" where
  "StrWhiteSpaceChar c \<longleftrightarrow>
     c = CHR 0x09 \<or> c = CHR 0x0A \<or> c = CHR 0x0B \<or> c = CHR 0x0C \<or> c = CHR 0x0D \<or>
     c = CHR 0x20 \<or> c = CHR 0xA0"

definition trimStart :: "string \<Rightarrow> string" where
  "trimStart s = dropWhile StrWhiteSpaceChar s"

definition trimEnd :: "string \<Rightarrow> string" where
  "trimEnd s = rev (dropWhile StrWhiteSpaceChar (rev s))"

definition trim :: "string \<Rightarrow> string" where
  "trim s = trimEnd (trimStart s)"

definition DecimalDigit :: "char \<Rightarrow> bool" where
  "DecimalDigit c \<longleftrightarrow> c \<in> set ''0123456789''"

text \<open>The value of a digit is its place in \<open>0123456789\<close>; 0 for any other character.\<close>

definition digit_value :: "char \<Rightarrow> nat" where
  "digit_value c =
     (if DecimalDigit c then length (takeWhile (\<lambda>d. d \<noteq> c) ''0123456789'') else 0)"

text \<open>The value of a run of decimal digits, most significant digit first.\<close>

definition digits_value :: "string \<Rightarrow> nat" where
  "digits_value ds = foldl (\<lambda>n c. 10 * n + digit_value c) 0 ds"

section \<open>Numbers of the JavaScript runtime\<close>

text \<open>
  A Number is an IEEE 754 binary64 value. Every finite one is a rational, so the model
  keeps the exact rational value; the two zeros are not told apart (no operation of the
  program does).
\<close>

datatype number = NaN | NegInfinity | Finite rat | PosInfinity

definition isNaN :: "number \<Rightarrow> bool" where
  "isNaN x \<longleftrightarrow> x = NaN"

text \<open>\<open>x <= 0\<close> and \<open>x > 0\<close> on Numbers: every comparison with NaN is false.\<close>

definition le_zero :: "number \<Rightarrow> bool" where
  "le_zero x = (case x of NaN \<Rightarrow> False | NegInfinity \<Rightarrow> True | Finite q \<Rightarrow> q \<le> 0
                | PosInfinity \<Rightarrow> False)"

definition gt_zero :: "number \<Rightarrow> bool" where
  "gt_zero x = (case x of NaN \<Rightarrow> False | NegInfinity \<Rightarrow> False | Finite q \<Rightarrow> 0 < q
                | PosInfinity \<Rightarrow> True)"

definition scale2 :: "int \<Rightarrow> rat" where
  "scale2 k = (if 0 \<le> k then 2 ^ nat k else 1 / 2 ^ nat (- k))"

text \<open>
  The integer \<open>e\<close> with \<open>2 ^ e \<le> a / b < 2 ^ (e + 1)\<close>, for positive integers \<open>a\<close> and
  \<open>b\<close>: the difference of the bit lengths, or one less.
\<close>

definition floor_log2 :: "int \<Rightarrow> int \<Rightarrow> int" where
  "floor_log2 a b =
     (let e = bitlen a - bitlen b
      in if (if 0 \<le> e then b * 2 ^ nat e \<le> a else b \<le> a * 2 ^ nat (- e)) then e
         else e - 1)"

text \<open>The integer nearest to \<open>a / b\<close> (\<open>b\<close> positive), a tie going to the even neighbour.\<close>

definition round_half_even :: "int \<Rightarrow> int \<Rightarrow> int" where
  "round_half_even a b =
     (let q = a div b; r = a mod b
      in if 2 * r < b then q else if b < 2 * r then q + 1 else if even q then q else q + 1)"

text \<open>
  ``The Number value for \<open>x\<close>'' of ECMAScript, for the fraction \<open>x = a / b\<close> with \<open>b\<close>
  positive: the binary64 value nearest to \<open>x\<close> (53 significant bits, exponents from
  \<open>-1022\<close>, subnormals below), ties to even, and an infinity from \<open>2 ^ 1024\<close> on.
\<close>

definition Number_value :: "int \<Rightarrow> int \<Rightarrow> number" where
  "Number_value a b =
     (if a = 0 then Finite 0
      else
        let m = \<bar>a\<bar>;
            k = max (floor_log2 m b) (- 1022) - 52;
            n = (if 0 \<le> k then round_half_even m (b * 2 ^ nat k)
                 else round_half_even (m * 2 ^ nat (- k)) b);
            v = of_int n * scale2 k
        in if 2 ^ 1024 \<le> v then (if a < 0 then NegInfinity else PosInfinity)
           else Finite (if a < 0 then - v else v))"

subsection \<open>parseFloat\<close>

text \<open>
  \<open>parseFloat\<close> drops leading white space and reads the longest prefix that is a
  \<open>StrDecimalLiteral\<close>: an optional sign, then \<open>Infinity\<close>, or digits with an optional
  fraction and an optional exponent (a fraction alone needs a digit; an exponent needs
  one too, otherwise the prefix ends before the \<open>e\<close>). What follows the prefix is
  ignored. Without such a prefix the result is NaN. A literal of more than 20 significant
  digits is rounded exactly here, as the engines do (ECMAScript allows them to round it
  at the 20th digit).
\<close>

text \<open>
  The exponent part at the head of \<open>s\<close>, as a power of ten, and what follows it; without
  one, 0 and all of \<open>s\<close>.
\<close>

definition ExponentPart :: "string \<Rightarrow> int \<times> string" where
  "ExponentPart s =
     (if s \<noteq> [] \<and> (hd s = CHR ''e'' \<or> hd s = CHR ''E'') then
        (let r = tl s;
             signed = (r \<noteq> [] \<and> (hd r = CHR ''+'' \<or> hd r = CHR ''-''));
             ds = takeWhile DecimalDigit (if signed then tl r else r)
         in if ds = [] then (0, s)
            else (if r \<noteq> [] \<and> hd r = CHR ''-'' then - int (digits_value ds)
                  else int (digits_value ds),
                  dropWhile DecimalDigit (if signed then tl r else r)))
      else (0, s))"

text \<open>
  The longest \<open>StrUnsignedDecimalLiteral\<close> at the head of a string, \<open>Infinity\<close> or a
  decimal \<open>m * 10 ^ k\<close>, and what follows it.
\<close>

datatype literal = InfinityLiteral | DecimalLiteral nat int

definition StrUnsignedDecimalLiteral :: "string \<Rightarrow> (literal \<times> string) option" where
  "StrUnsignedDecimalLiteral s =
     (if take 8 s = ''Infinity'' then Some (InfinityLiteral, drop 8 s)
      else
        let ip = takeWhile DecimalDigit s;
            r = dropWhile DecimalDigit s
        in if r \<noteq> [] \<and> hd r = CHR ''.'' then
             (let fp = takeWhile DecimalDigit (tl r);
                  r' = dropWhile DecimalDigit (tl r)
              in if ip = [] \<and> fp = [] then None
                 else Some (DecimalLiteral (digits_value (ip @ fp))
                                           (fst (ExponentPart r') - int (length fp)),
                            snd (ExponentPart r')))
           else if ip = [] then None
           else Some (DecimalLiteral (digits_value ip) (fst (ExponentPart r)),
                      snd (ExponentPart r)))"

text \<open>
  The longest \<open>StrDecimalLiteral\<close> at the head of a string: whether it has a minus sign,
  the literal, and what follows it.
\<close>

definition StrDecimalLiteral :: "string \<Rightarrow> (bool \<times> literal \<times> string) option" where
  "StrDecimalLiteral s =
     (let signed = (s \<noteq> [] \<and> (hd s = CHR ''+'' \<or> hd s = CHR ''-''))
      in case StrUnsignedDecimalLiteral (if signed then tl s else s) of
           None \<Rightarrow> None
         | Some (l, r) \<Rightarrow> Some (s \<noteq> [] \<and> hd s = CHR ''-'', l, r))"

definition parseFloat :: "string \<Rightarrow> number" where
  "parseFloat string =
     (case StrDecimalLiteral (trimStart string) of
        None \<Rightarrow> NaN
      | Some (negative, InfinityLiteral, r) \<Rightarrow> (if negative then NegInfinity else PosInfinity)
      | Some (negative, DecimalLiteral m k, r) \<Rightarrow>
          (let a = (if 0 \<le> k then int m * 10 ^ nat k else int m);
               b = (if 0 \<le> k then 1 else 10 ^ nat (- k))
           in Number_value (if negative then - a else a) b))"

section \<open>Time values and the calendar of the Date object\<close>

text \<open>
  A time value is a number of milliseconds since 1970-01-01T00:00:00Z. The definitions
  follow the abstract operations of ECMAScript (Day, TimeWithinDay, DayFromYear,
  YearFromTime, MonthFromTime, DateFromTime, MakeDay, MakeDate, TimeClip).
\<close>

definition msPerDay :: int where
  "msPerDay = 86400000"

definition Day :: "int \<Rightarrow> int" where
  "Day t = t div msPerDay"

definition TimeWithinDay :: "int \<Rightarrow> int" where
  "TimeWithinDay t = t mod msPerDay"

definition DaysInYear :: "int \<Rightarrow> int" where
  "DaysInYear y =
     (if y mod 4 \<noteq> 0 then 365 else if y mod 100 \<noteq> 0 then 366
      else if y mod 400 \<noteq> 0 then 365 else 366)"

definition DayFromYear :: "int \<Rightarrow> int" where
  "DayFromYear y =
     365 * (y - 1970) + (y - 1969) div 4 - (y - 1901) div 100 + (y - 1601) div 400"

text \<open>
  ECMAScript takes as the year of a time value the largest \<open>y\<close> whose first day is not
  after it. \<open>YearFromDay\<close> computes it: an estimate from the mean length of a year, which
  is off by at most one, and a correction (lemmas \<open>YearFromDay_lower\<close> and
  \<open>YearFromDay_upper\<close> below).
\<close>

definition YearFromDay :: "int \<Rightarrow> int" where
  "YearFromDay d =
     (let y = 1970 + (400 * d) div 146097
      in if d < DayFromYear y then y - 1
         else if DayFromYear (y + 1) \<le> d then y + 1
         else y)"

definition YearFromTime :: "int \<Rightarrow> int" where
  "YearFromTime t = YearFromDay (Day t)"

definition InLeapYear :: "int \<Rightarrow> int" where
  "InLeapYear t = (if DaysInYear (YearFromTime t) = 366 then 1 else 0)"

definition DayWithinYear :: "int \<Rightarrow> int" where
  "DayWithinYear t = Day t - DayFromYear (YearFromTime t)"

definition MonthFromTime :: "int \<Rightarrow> int" where
  "MonthFromTime t =
     (let d = DayWithinYear t; l = InLeapYear t
      in if d < 31 then 0 else if d < 59 + l then 1 else if d < 90 + l then 2
         else if d < 120 + l then 3 else if d < 151 + l then 4 else if d < 181 + l then 5
         else if d < 212 + l then 6 else if d < 243 + l then 7 else if d < 273 + l then 8
         else if d < 304 + l then 9 else if d < 334 + l then 10 else 11)"

definition DateFromTime :: "int \<Rightarrow> int" where
  "DateFromTime t =
     (let d = DayWithinYear t; l = InLeapYear t; m = MonthFromTime t
      in if m = 0 then d + 1 else if m = 1 then d - 30 else if m = 2 then d - 58 - l
         else if m = 3 then d - 89 - l else if m = 4 then d - 119 - l
         else if m = 5 then d - 150 - l else if m = 6 then d - 180 - l
         else if m = 7 then d - 211 - l else if m = 8 then d - 242 - l
         else if m = 9 then d - 272 - l else if m = 10 then d - 303 - l
         else d - 333 - l)"

text \<open>The day within a year of \<open>l\<close> leap days on which month \<open>m\<close> (from 0) begins.\<close>

definition MonthStart :: "int \<Rightarrow> int \<Rightarrow> int" where
  "MonthStart m l =
     (if m = 0 then 0 else if m = 1 then 31 else if m = 2 then 59 + l
      else if m = 3 then 90 + l else if m = 4 then 120 + l else if m = 5 then 151 + l
      else if m = 6 then 181 + l else if m = 7 then 212 + l else if m = 8 then 243 + l
      else if m = 9 then 273 + l else if m = 10 then 304 + l else 334 + l)"

text \<open>
  \<open>MakeDay\<close> carries months outside 0..11 into the year, finds the first day of that
  month and counts on from it, so that a day of the month below 1 or beyond the month's
  end lands in a neighbouring month.
\<close>

definition MakeDay :: "int \<Rightarrow> int \<Rightarrow> int \<Rightarrow> int" where
  "MakeDay year month date =
     (let ym = year + month div 12; mn = month mod 12
      in DayFromYear ym + MonthStart mn (if DaysInYear ym = 366 then 1 else 0) + date - 1)"

definition MakeDate :: "int \<Rightarrow> int \<Rightarrow> int" where
  "MakeDate day time = day * msPerDay + time"

text \<open>A Date object holds a time value or NaN (an invalid date), here \<open>None\<close>.\<close>

type_synonym Date = "int option"

definition TimeClip :: "int \<Rightarrow> Date" where
  "TimeClip t = (if 8640000000000000 < \<bar>t\<bar> then None else Some t)"

text \<open>
  The runtime's environment: the offset of local time from UTC in milliseconds, as
  ECMAScript's \<open>LocalTZA(t, isUTC)\<close> (it may change with \<open>t\<close>, as with daylight saving),
  and what \<open>Date.parse\<close> makes of a string that is not one of the date-only forms, which
  depends on the engine.
\<close>

record runtime =
  LocalTZA :: "int \<Rightarrow> bool \<Rightarrow> int"
  parse_other :: "string \<Rightarrow> Date"

definition LocalTime :: "runtime \<Rightarrow> int \<Rightarrow> int" where
  "LocalTime rt t = t + LocalTZA rt t True"

definition UTC :: "runtime \<Rightarrow> int \<Rightarrow> int" where
  "UTC rt t = t - LocalTZA rt t False"

definition getDate :: "runtime \<Rightarrow> int \<Rightarrow> int" where
  "getDate rt t = DateFromTime (LocalTime rt t)"

definition getMonth :: "runtime \<Rightarrow> int \<Rightarrow> int" where
  "getMonth rt t = MonthFromTime (LocalTime rt t)"

definition setDate :: "runtime \<Rightarrow> Date \<Rightarrow> int \<Rightarrow> Date" where
  "setDate rt this dt =
     (case this of
        None \<Rightarrow> None
      | Some tv \<Rightarrow>
          let t = LocalTime rt tv;
              newDate = MakeDate (MakeDay (YearFromTime t) (MonthFromTime t) dt)
                                 (TimeWithinDay t)
          in TimeClip (UTC rt newDate))"

definition setMonth :: "runtime \<Rightarrow> Date \<Rightarrow> int \<Rightarrow> Date" where
  "setMonth rt this m =
     (case this of
        None \<Rightarrow> None
      | Some tv \<Rightarrow>
          let t = LocalTime rt tv;
              newDate = MakeDate (MakeDay (YearFromTime t) m (DateFromTime t))
                                 (TimeWithinDay t)
          in TimeClip (UTC rt newDate))"

text \<open>\<open>a >= b\<close> on Date objects compares the time values; with NaN it is false.\<close>

definition Date_ge :: "Date \<Rightarrow> Date \<Rightarrow> bool" where
  "Date_ge a b = (case a of None \<Rightarrow> False | Some x \<Rightarrow> (case b of None \<Rightarrow> False | Some y \<Rightarrow> y \<le> x))"

subsection \<open>toISOString and Date.parse\<close>

definition digit_char :: "nat \<Rightarrow> char" where
  "digit_char d = ''0123456789'' ! (d mod 10)"

text \<open>The last \<open>k\<close> decimal digits of \<open>n\<close>, with leading zeros.\<close>

primrec pad :: "nat \<Rightarrow> nat \<Rightarrow> string" where
  "pad 0 n = []"
| "pad (Suc k) n = pad k (n div 10) @ [digit_char n]"

definition year_string :: "int \<Rightarrow> string" where
  "year_string y =
     (if 0 \<le> y \<and> y \<le> 9999 then pad 4 (nat y)
      else (if y < 0 then ''-'' else ''+'') @ pad 6 (nat \<bar>y\<bar>))"

text \<open>
  \<open>toISOString\<close> of a valid time value (it is UTC): \<open>YYYY-MM-DDTHH:mm:ss.sssZ\<close>, the year
  with a sign and six digits outside 0..9999.
\<close>

definition toISOString :: "int \<Rightarrow> string" where
  "toISOString t =
     year_string (YearFromTime t) @ ''-'' @ pad 2 (nat (MonthFromTime t + 1)) @ ''-'' @
     pad 2 (nat (DateFromTime t)) @ ''T'' @
     pad 2 (nat (t div 3600000 mod 24)) @ '':'' @ pad 2 (nat (t div 60000 mod 60)) @ '':'' @
     pad 2 (nat (t div 1000 mod 60)) @ ''.'' @ pad 3 (nat (t mod 1000)) @ ''Z''"

text \<open>\<open>s.split('T')[0]\<close>: the part of \<open>s\<close> before its first \<open>T\<close>, all of \<open>s\<close> without one.\<close>

definition split_T_0 :: "string \<Rightarrow> string" where
  "split_T_0 s = takeWhile (\<lambda>c. c \<noteq> CHR ''T'') s"

text \<open>
  \<open>Date.parse\<close> on the date-only forms of the ISO format, \<open>YYYY\<close>, \<open>YYYY-MM\<close> and
  \<open>YYYY-MM-DD\<close> (the year also as a sign and six digits, but not \<open>-000000\<close>), which are
  read as UTC. A month outside 01..12 or a day outside 01..31 gives an invalid date; a
  day beyond the end of its month is carried over by \<open>MakeDay\<close>. Any other string is
  left to the engine.
\<close>

definition all_digits :: "string \<Rightarrow> bool" where
  "all_digits s \<longleftrightarrow> list_all DecimalDigit s"

definition parse_year :: "string \<Rightarrow> (int \<times> string) option" where
  "parse_year s =
     (if s \<noteq> [] \<and> (hd s = CHR ''+'' \<or> hd s = CHR ''-'') then
        (let ds = take 6 (tl s)
         in if length ds = 6 \<and> all_digits ds \<and> \<not> (hd s = CHR ''-'' \<and> digits_value ds = 0)
            then Some (if hd s = CHR ''-'' then - int (digits_value ds) else int (digits_value ds),
                       drop 6 (tl s))
            else None)
      else
        (let ds = take 4 s
         in if length ds = 4 \<and> all_digits ds then Some (int (digits_value ds), drop 4 s)
            else None))"

definition parse_dash2 :: "string \<Rightarrow> (int \<times> string) option" where
  "parse_dash2 s =
     (let ds = take 2 (tl s)
      in if s \<noteq> [] \<and> hd s = CHR ''-'' \<and> length ds = 2 \<and> all_digits ds
         then Some (int (digits_value ds), drop 2 (tl s))
         else None)"

definition date_only :: "int \<Rightarrow> int \<Rightarrow> int \<Rightarrow> Date" where
  "date_only y m d =
     (if 1 \<le> m \<and> m \<le> 12 \<and> 1 \<le> d \<and> d \<le> 31
      then TimeClip (MakeDate (MakeDay y (m - 1) d) 0)
      else None)"

definition Date_parse :: "runtime \<Rightarrow> string \<Rightarrow> Date" where
  "Date_parse rt s =
     (case parse_year s of
        None \<Rightarrow> parse_other rt s
      | Some (y, r1) \<Rightarrow>
          if r1 = [] then date_only y 1 1
          else
            (case parse_dash2 r1 of
               None \<Rightarrow> parse_other rt s
             | Some (m, r2) \<Rightarrow>
                 if r2 = [] then date_only y m 1
                 else
                   (case parse_dash2 r2 of
                      None \<Rightarrow> parse_other rt s
                    | Some (d, r3) \<Rightarrow> if r3 = [] then date_only y m d else parse_other rt s)))"

section \<open>The table \<open>expenses\<close> and its three statements\<close>

text \<open>
  A row of \<open>expenses(id, amount, category, note, date)\<close>; \<open>note\<close> may be NULL. The table
  keeps its rows in rowid order, with the largest rowid it ever used (\<open>AUTOINCREMENT\<close>
  keeps it in \<open>sqlite_sequence\<close>). The database holds the table or not (\<open>None\<close>).
\<close>

record expense =
  row_id :: int
  row_amount :: number
  row_category :: string
  row_note :: "string option"
  row_date :: string

record table =
  rows :: "expense list"
  sqlite_sequence :: int

type_synonym database = "table option"

datatype error = no_such_table

definition message :: "error \<Rightarrow> string" where
  "message e = ''no such table: expenses''"

text \<open>\<open>DROP TABLE IF EXISTS expenses\<close> and \<open>CREATE TABLE IF NOT EXISTS expenses (...)\<close>.\<close>

definition drop_table :: "database \<Rightarrow> database" where
  "drop_table d = None"

definition create_table :: "database \<Rightarrow> database" where
  "create_table d =
     (case d of None \<Rightarrow> Some \<lparr>rows = [], sqlite_sequence = 0\<rparr> | Some t \<Rightarrow> Some t)"

text \<open>
  \<open>INSERT INTO expenses (amount, category, note, date) VALUES (?, ?, ?, ?)\<close>: the new
  rowid is one more than the largest the table holds or ever held.
\<close>

definition next_id :: "table \<Rightarrow> int" where
  "next_id t = foldr max (map row_id (rows t)) (sqlite_sequence t) + 1"

definition insert_expense ::
  "database \<Rightarrow> number \<Rightarrow> string \<Rightarrow> string option \<Rightarrow> string \<Rightarrow> error + database" where
  "insert_expense d a c n dt =
     (case d of
        None \<Rightarrow> Inl no_such_table
      | Some t \<Rightarrow>
          Inr (Some \<lparr>rows = rows t @ [\<lparr>row_id = next_id t, row_amount = a, row_category = c,
                                         row_note = n, row_date = dt\<rparr>],
                      sqlite_sequence = next_id t\<rparr>))"

text \<open>\<open>DELETE FROM expenses WHERE id = ?\<close>.\<close>

definition delete_expense :: "database \<Rightarrow> int \<Rightarrow> error + database" where
  "delete_expense d i =
     (case d of
        None \<Rightarrow> Inl no_such_table
      | Some t \<Rightarrow> Inr (Some (t\<lparr>rows := filter (\<lambda>r. row_id r \<noteq> i) (rows t)\<rparr>)))"

text \<open>
  \<open>SELECT * FROM expenses ORDER BY date DESC\<close>. The column is TEXT, compared byte by
  byte. SQLite promises no order among rows of equal date; its sorter leaves them in the
  order of the scan, the rowid order, and so does this insertion sort.
\<close>

primrec insert_by_date :: "expense \<Rightarrow> expense list \<Rightarrow> expense list" where
  "insert_by_date r [] = [r]"
| "insert_by_date r (x # xs) =
     (if row_date x \<le> row_date r then r # x # xs else x # insert_by_date r xs)"

primrec order_by_date_desc :: "expense list \<Rightarrow> expense list" where
  "order_by_date_desc [] = []"
| "order_by_date_desc (r # rs) = insert_by_date r (order_by_date_desc rs)"

definition select_expenses :: "database \<Rightarrow> error + expense list" where
  "select_expenses d =
     (case d of None \<Rightarrow> Inl no_such_table | Some t \<Rightarrow> Inr (order_by_date_desc (rows t)))"

section \<open>The screen\<close>

text \<open>
  The state of \<open>ExpenseScreen\<close>: the database behind \<open>db\<close>, the loaded list, the three
  form fields and the filter selector (the field \<open>note\<close> is written \<open>note'\<close>, the plain
  name being an Isabelle keyword). An operation is run to its end before the next one
  starts.
\<close>

record screen =
  db :: database
  expenses :: "expense list"
  amount :: string
  category :: string
  note' :: string
  dateFilter :: string

text \<open>The setters of the form fields and of the selector, as the inputs and buttons call them.\<close>

definition setAmount :: "string \<Rightarrow> screen \<Rightarrow> screen" where
  "setAmount v s = s\<lparr>amount := v\<rparr>"

definition setCategory :: "string \<Rightarrow> screen \<Rightarrow> screen" where
  "setCategory v s = s\<lparr>category := v\<rparr>"

definition setNote :: "string \<Rightarrow> screen \<Rightarrow> screen" where
  "setNote v s = s\<lparr>note' := v\<rparr>"

definition setDateFilter :: "string \<Rightarrow> screen \<Rightarrow> screen" where
  "setDateFilter v s = s\<lparr>dateFilter := v\<rparr>"

text \<open>What the user is shown by an operation: nothing, or an alert.\<close>

datatype shown = Nothing | Alert string

definition loadExpenses :: "screen \<Rightarrow> error + screen" where
  "loadExpenses s =
     (case select_expenses (db s) of
        Inl e \<Rightarrow> Inl e
      | Inr rs \<Rightarrow> Inr (s\<lparr>expenses := rs\<rparr>))"

text \<open>\<open>getFilteredExpenses\<close>, with the time value \<open>now\<close> that \<open>new Date()\<close> returns.\<close>

definition getFilteredExpenses :: "runtime \<Rightarrow> int \<Rightarrow> screen \<Rightarrow> expense list" where
  "getFilteredExpenses rt now s =
     (let today = Some now
      in filter
           (\<lambda>expense.
              let expenseDate = Date_parse rt (row_date expense)
              in if dateFilter s = ''all'' then True
                 else if dateFilter s = ''week'' then
                   (let weekAgo = setDate rt today (getDate rt now - 7)
                    in Date_ge expenseDate weekAgo)
                 else if dateFilter s = ''month'' then
                   (let monthAgo = setMonth rt today (getMonth rt now - 1)
                    in Date_ge expenseDate monthAgo)
                 else True)
           (expenses s))"

text \<open>
  \<open>addExpense\<close>, with the time value \<open>now\<close> of its \<open>new Date()\<close>. An error thrown by the
  database is caught and alerted.
\<close>

definition addExpense :: "int \<Rightarrow> screen \<Rightarrow> shown \<times> screen" where
  "addExpense now s =
     (let amountNumber = parseFloat (amount s)
      in if isNaN amountNumber \<or> le_zero amountNumber
         then (Alert ''Please enter a valid amount'', s)
         else
           let trimmedCategory = trim (category s);
               trimmedNote = trim (note' s)
           in if trimmedCategory = [] then (Alert ''Please enter a category'', s)
              else
                let today = split_T_0 (toISOString now)
                in case insert_expense (db s) amountNumber trimmedCategory
                          (if trimmedNote = [] then None else Some trimmedNote) today of
                     Inl e \<Rightarrow> (Alert (''Error: '' @ message e), s)
                   | Inr d \<Rightarrow>
                       (case loadExpenses (s\<lparr>db := d, amount := [], category := [], note' := []\<rparr>) of
                          Inl e \<Rightarrow>
                            (Alert (''Error: '' @ message e),
                             s\<lparr>db := d, amount := [], category := [], note' := []\<rparr>)
                        | Inr s' \<Rightarrow> (Nothing, s')))"

text \<open>\<open>deleteExpense\<close>: an error of the database is not caught here.\<close>

definition deleteExpense :: "int \<Rightarrow> screen \<Rightarrow> error + screen" where
  "deleteExpense i s =
     (case delete_expense (db s) i of
        Inl e \<Rightarrow> Inl e
      | Inr d \<Rightarrow> loadExpenses (s\<lparr>db := d\<rparr>))"

text \<open>
  The function \<open>setup\<close> of the effect run when the screen is mounted (the name is an
  Isabelle keyword, hence the suffix); its errors are logged only.
\<close>

definition setup_effect :: "screen \<Rightarrow> screen" where
  "setup_effect s =
     (let s1 = s\<lparr>db := drop_table (db s)\<rparr>;
          s2 = s1\<lparr>db := create_table (db s1)\<rparr>
      in case loadExpenses s2 of Inl e \<Rightarrow> s2 | Inr s3 \<Rightarrow> s3)"

text \<open>The screen as \<open>useState\<close> initialises it, over a database \<open>d\<close>.\<close>

definition mount :: "database \<Rightarrow> screen" where
  "mount d = \<lparr>db = d, expenses = [], amount = [], category = [], note' = [], dateFilter = ''all''\<rparr>"

section \<open>Notions used in the statements\<close>

text \<open>The rows in the database behind a screen; none without the table.\<close>

definition stored :: "screen \<Rightarrow> expense list" where
  "stored s = (case db s of None \<Rightarrow> [] | Some t \<Rightarrow> rows t)"

text \<open>
  The calendar day of a time value in UTC, written \<open>YYYY-MM-DD\<close> (the year as in
  \<open>toISOString\<close>): the part of \<open>toISOString\<close> before the \<open>T\<close>, see \<open>split_T_0_toISOString\<close>.
\<close>

definition date_string :: "int \<Rightarrow> string" where
  "date_string t =
     year_string (YearFromTime t) @ ''-'' @ pad 2 (nat (MonthFromTime t + 1)) @ ''-'' @
     pad 2 (nat (DateFromTime t))"

text \<open>
  The row that \<open>addExpense\<close> hands to the INSERT at time \<open>now\<close>, from the form of \<open>s\<close>,
  with the rowid the table \<open>t\<close> gives it.
\<close>

definition new_expense :: "int \<Rightarrow> screen \<Rightarrow> table \<Rightarrow> expense" where
  "new_expense now s t =
     \<lparr>row_id = next_id t, row_amount = parseFloat (amount s),
      row_category = trim (category s),
      row_note = (if trim (note' s) = [] then None else Some (trim (note' s))),
      row_date = split_T_0 (toISOString now)\<rparr>"

text \<open>
  The words of the specification, ``numeric input'': white space at the ends aside, all
  of the text is one decimal literal.
\<close>

definition numeric_input :: "string \<Rightarrow> bool" where
  "numeric_input s \<longleftrightarrow>
     (case StrDecimalLiteral (trim s) of None \<Rightarrow> False | Some (negative, l, r) \<Rightarrow> r = [])"

text \<open>A time zone without daylight saving, \<open>z\<close> milliseconds ahead of UTC.\<close>

definition fixed_zone :: "int \<Rightarrow> runtime" where
  "fixed_zone z = \<lparr>LocalTZA = (\<lambda>t isUTC. z), parse_other = (\<lambda>s. None)\<rparr>"

section \<open>Calendar lemmas\<close>

lemma div_bounds:
  fixes k x :: int
  assumes "0 < k"
  shows "k * (x div k) \<le> x" and "x - (k - 1) \<le> k * (x div k)"
proof -
  have "x = k * (x div k) + x mod k" by simp
  moreover have "0 \<le> x mod k" and "x mod k < k" using assms by simp_all
  ultimately show "k * (x div k) \<le> x" and "x - (k - 1) \<le> k * (x div k)" by linarith+
qed

lemma DayFromYear_bounds:
  "146097 * (y - 1970) - 506 \<le> 400 * DayFromYear y"
  "400 * DayFromYear y \<le> 146097 * (y - 1970) + 589"
proof -
  define a where "a = (y - 1969) div 4"
  define b where "b = (y - 1901) div 100"
  define c where "c = (y - 1601) div 400"
  have a: "4 * a \<le> y - 1969" "y - 1969 - 3 \<le> 4 * a"
    using div_bounds [of 4 "y - 1969"] by (simp_all add: a_def)
  have b: "100 * b \<le> y - 1901" "y - 1901 - 99 \<le> 100 * b"
    using div_bounds [of 100 "y - 1901"] by (simp_all add: b_def)
  have c: "400 * c \<le> y - 1601" "y - 1601 - 399 \<le> 400 * c"
    using div_bounds [of 400 "y - 1601"] by (simp_all add: c_def)
  have e: "400 * DayFromYear y = 146000 * (y - 1970) + 100 * (4 * a) - 4 * (100 * b) + 400 * c"
    by (simp add: DayFromYear_def a_def b_def c_def)
  show "146097 * (y - 1970) - 506 \<le> 400 * DayFromYear y"
    unfolding e using a(2) b(1) c(2) by simp
  show "400 * DayFromYear y \<le> 146097 * (y - 1970) + 589"
    unfolding e using a(1) b(2) c(1) by simp
qed

lemma YearFromDay_lower: "DayFromYear (YearFromDay d) \<le> d"
proof -
  define q where "q = (400 * d) div 146097"
  have q: "146097 * q \<le> 400 * d"
    using div_bounds(1) [of 146097 "400 * d"] by (simp add: q_def)
  have "DayFromYear (1970 + q - 1) \<le> d"
    using DayFromYear_bounds(2) [of "1970 + q - 1"] q by simp
  then show ?thesis
    by (simp add: YearFromDay_def Let_def q_def)
qed

lemma YearFromDay_upper: "d < DayFromYear (YearFromDay d + 1)"
proof -
  define q where "q = (400 * d) div 146097"
  have q: "400 * d - 146096 \<le> 146097 * q"
    using div_bounds(2) [of 146097 "400 * d"] by (simp add: q_def)
  have "d < DayFromYear (1970 + q + 1 + 1)"
    using DayFromYear_bounds(1) [of "1970 + q + 1 + 1"] q by simp
  then show ?thesis
    by (simp add: YearFromDay_def Let_def q_def)
qed

lemma div_succ:
  fixes k x :: int
  assumes "0 < k"
  shows "(x + 1) div k = x div k + (if (x + 1) mod k = 0 then 1 else 0)"
proof -
  define q where "q = x div k"
  define r where "r = x mod k"
  have x: "x = k * q + r" by (simp add: q_def r_def)
  have r: "0 \<le> r" "r < k" using assms by (simp_all add: r_def)
  show ?thesis
  proof (cases "r = k - 1")
    case True
    then have e: "x + 1 = k * (q + 1) + 0" using x by (simp add: algebra_simps)
    have "(x + 1) div k = q + 1"
      by (rule int_div_pos_eq [OF e]) (use assms in simp_all)
    moreover have "(x + 1) mod k = 0"
      by (rule int_mod_pos_eq [OF e]) (use assms in simp_all)
    ultimately show ?thesis by (simp add: q_def)
  next
    case False
    then have r': "0 \<le> r + 1" "r + 1 < k" using r by simp_all
    have e: "x + 1 = k * q + (r + 1)" using x by simp
    have "(x + 1) div k = q"
      by (rule int_div_pos_eq [OF e r'])
    moreover have "(x + 1) mod k = r + 1"
      by (rule int_mod_pos_eq [OF e r'])
    ultimately show ?thesis using r by (simp add: q_def)
  qed
qed

lemma mod_shift:
  fixes y :: int
  shows "(y - k * j) mod k = y mod k"
proof -
  have "(y - k * j) mod k = (y + k * (- j)) mod k" by simp
  also have "\<dots> = y mod k" by (rule mod_mult_self2)
  finally show ?thesis .
qed

lemma DayFromYear_Suc: "DayFromYear (y + 1) = DayFromYear y + DaysInYear y"
proof -
  have a: "(y + 1 - 1969) div 4 = (y - 1969) div 4 + (if y mod 4 = 0 then 1 else 0)"
    using div_succ [of 4 "y - 1969"] mod_shift [of y 4 492] by (simp add: algebra_simps)
  have b: "(y + 1 - 1901) div 100 = (y - 1901) div 100 + (if y mod 100 = 0 then 1 else 0)"
    using div_succ [of 100 "y - 1901"] mod_shift [of y 100 19] by (simp add: algebra_simps)
  have c: "(y + 1 - 1601) div 400 = (y - 1601) div 400 + (if y mod 400 = 0 then 1 else 0)"
    using div_succ [of 400 "y - 1601"] mod_shift [of y 400 4] by (simp add: algebra_simps)
  have d: "y mod 4 = 0" if "y mod 100 = 0"
  proof -
    from that have "100 dvd y" by (simp add: mod_eq_0_iff_dvd)
    moreover have "(4::int) dvd 100" by simp
    ultimately have "4 dvd y" by (rule dvd_trans [rotated])
    then show ?thesis by (simp add: mod_eq_0_iff_dvd)
  qed
  have e: "y mod 100 = 0" if "y mod 400 = 0"
  proof -
    from that have "400 dvd y" by (simp add: mod_eq_0_iff_dvd)
    moreover have "(100::int) dvd 400" by simp
    ultimately have "100 dvd y" by (rule dvd_trans [rotated])
    then show ?thesis by (simp add: mod_eq_0_iff_dvd)
  qed
  show ?thesis
    unfolding DayFromYear_def DaysInYear_def a b c using d e by auto
qed

lemma DaysInYear_cases: "DaysInYear y = 365 \<or> DaysInYear y = 366"
  by (simp add: DaysInYear_def)

lemma DayWithinYear_range:
  "0 \<le> DayWithinYear t" "DayWithinYear t < DaysInYear (YearFromTime t)"
  using YearFromDay_lower [of "Day t"] YearFromDay_upper [of "Day t"]
  by (simp_all add: DayWithinYear_def YearFromTime_def DayFromYear_Suc)

lemma MonthFromTime_range: "0 \<le> MonthFromTime t" "MonthFromTime t \<le> 11"
  by (simp_all add: MonthFromTime_def Let_def)

lemma MonthStart_DateFromTime:
  "MonthStart (MonthFromTime t) (InLeapYear t) + DateFromTime t - 1 = DayWithinYear t"
  by (simp add: MonthStart_def DateFromTime_def MonthFromTime_def Let_def)

lemma DateFromTime_range: "1 \<le> DateFromTime t" "DateFromTime t \<le> 31"
  using DayWithinYear_range [of t] DaysInYear_cases [of "YearFromTime t"]
  by (auto simp add: DateFromTime_def MonthFromTime_def InLeapYear_def Let_def split: if_splits)

lemma MakeDay_shift:
  "MakeDay (YearFromTime t) (MonthFromTime t) (DateFromTime t + k) = Day t + k"
proof -
  have m: "MonthFromTime t div 12 = 0" "MonthFromTime t mod 12 = MonthFromTime t"
    using MonthFromTime_range [of t] by simp_all
  have "MakeDay (YearFromTime t) (MonthFromTime t) (DateFromTime t + k)
      = DayFromYear (YearFromTime t) + (MonthStart (MonthFromTime t) (InLeapYear t) + DateFromTime t - 1) + k"
    by (simp add: MakeDay_def m InLeapYear_def)
  then show ?thesis
    by (simp add: MonthStart_DateFromTime DayWithinYear_def)
qed

lemma MakeDate_Day: "MakeDate (Day t + k) (TimeWithinDay t) = t + k * msPerDay"
  by (simp add: MakeDate_def Day_def TimeWithinDay_def algebra_simps)

section \<open>Digits\<close>

lemma digit_char_cases:
  "d mod 10 = 0 \<or> d mod 10 = 1 \<or> d mod 10 = 2 \<or> d mod 10 = 3 \<or> d mod 10 = 4 \<or>
   d mod 10 = 5 \<or> d mod 10 = 6 \<or> d mod 10 = 7 \<or> d mod 10 = 8 \<or> d mod (10::nat) = 9"
  by presburger

lemma digit_value_digit_char: "digit_value (digit_char d) = d mod 10"
  using digit_char_cases [of d] by (auto simp: digit_char_def digit_value_def DecimalDigit_def)

lemma DecimalDigit_digit_char: "DecimalDigit (digit_char d)"
  using digit_char_cases [of d] by (auto simp: digit_char_def DecimalDigit_def)

lemma digits_value_snoc: "digits_value (ds @ [c]) = 10 * digits_value ds + digit_value c"
  by (simp add: digits_value_def)

lemma length_pad: "length (pad k n) = k"
  by (induction k arbitrary: n) simp_all

lemma all_digits_pad: "all_digits (pad k n)"
  by (induction k arbitrary: n) (simp_all add: all_digits_def DecimalDigit_digit_char)

lemma digits_value_pad: "digits_value (pad k n) = n mod 10 ^ k"
proof (induction k arbitrary: n)
  case 0
  show ?case by (simp add: digits_value_def)
next
  case (Suc k)
  have "digits_value (pad (Suc k) n) = 10 * (n div 10 mod 10 ^ k) + n mod 10"
    by (simp add: digits_value_snoc Suc digit_value_digit_char)
  also have "\<dots> = n mod 10 ^ Suc k"
    by (simp add: mod_mult2_eq)
  finally show ?case .
qed

lemma DecimalDigit_not_T: "DecimalDigit c \<Longrightarrow> c \<noteq> CHR ''T''"
  by (auto simp: DecimalDigit_def)

lemma DecimalDigit_not_sign: "DecimalDigit c \<Longrightarrow> c \<noteq> CHR ''+'' \<and> c \<noteq> CHR ''-''"
  by (auto simp: DecimalDigit_def)

lemma pad_no_T: "c \<in> set (pad k n) \<Longrightarrow> c \<noteq> CHR ''T''"
  using all_digits_pad [of k n] DecimalDigit_not_T
  by (auto simp: all_digits_def list_all_iff)

lemma hd_pad_digit: "0 < k \<Longrightarrow> DecimalDigit (hd (pad k n))"
  using all_digits_pad [of k n] length_pad [of k n]
  by (cases "pad k n") (auto simp: all_digits_def)

section \<open>The date part of toISOString and its parse\<close>

lemma year_string_no_T: "c \<in> set (year_string y) \<Longrightarrow> c \<noteq> CHR ''T''"
  by (auto simp: year_string_def dest: pad_no_T split: if_splits)

lemma split_T_0_toISOString: "split_T_0 (toISOString t) = date_string t"
proof -
  have n: "\<forall>c \<in> set (date_string t). c \<noteq> CHR ''T''"
    by (auto simp: date_string_def dest: pad_no_T year_string_no_T)
  have "toISOString t = date_string t @ CHR ''T'' # 
     (pad 2 (nat (t div 3600000 mod 24)) @ '':'' @ pad 2 (nat (t div 60000 mod 60)) @ '':'' @
     pad 2 (nat (t div 1000 mod 60)) @ ''.'' @ pad 3 (nat (t mod 1000)) @ ''Z'')"
    by (simp add: toISOString_def date_string_def)
  then show ?thesis
    using n by (simp add: split_T_0_def takeWhile_tail)
qed

lemma parse_year_year_string:
  assumes "\<bar>y\<bar> < 1000000"
  shows "parse_year (year_string y @ r) = Some (y, r)"
proof (cases "0 \<le> y \<and> y \<le> 9999")
  case True
  have h: "hd (pad 4 (nat y) @ r) \<noteq> CHR ''+'' \<and> hd (pad 4 (nat y) @ r) \<noteq> CHR ''-''"
    using hd_pad_digit [of 4 "nat y"] length_pad [of 4 "nat y"] DecimalDigit_not_sign
    by (cases "pad 4 (nat y)") auto
  have "nat y < 10000" using True by linarith
  then have "nat y mod 10 ^ 4 = nat y" by simp
  then show ?thesis
    using True h
    by (simp add: parse_year_def year_string_def Let_def length_pad all_digits_pad digits_value_pad)
next
  case False
  have "nat \<bar>y\<bar> < 1000000" using assms by linarith
  then have v: "nat \<bar>y\<bar> mod 10 ^ 6 = nat \<bar>y\<bar>" by simp
  have nz: "y < 0 \<Longrightarrow> nat \<bar>y\<bar> \<noteq> 0" by simp
  show ?thesis
    using False v nz
    by (auto simp add: parse_year_def year_string_def Let_def length_pad all_digits_pad digits_value_pad)
qed

lemma parse_dash2_pad:
  assumes "0 \<le> n" "n < 100"
  shows "parse_dash2 (CHR ''-'' # pad 2 (nat n) @ r) = Some (n, r)"
proof -
  have l: "length (pad 2 (nat n)) = 2" by (rule length_pad)
  have "nat n < 100" using assms by linarith
  then have "nat n mod 10 ^ 2 = nat n" by simp
  then show ?thesis
    using assms l all_digits_pad [of 2 "nat n"] digits_value_pad [of 2 "nat n"]
    by (simp add: parse_dash2_def Let_def)
qed

lemma Day_bounds:
  assumes "\<bar>t\<bar> \<le> 8640000000000000"
  shows "- 100000000 \<le> Day t" and "Day t \<le> 100000000"
proof -
  have "(- 100000000 * 86400000) div 86400000 \<le> t div (86400000::int)"
    by (rule zdiv_mono1) (use assms in simp_all)
  then show "- 100000000 \<le> Day t" by (simp add: Day_def msPerDay_def)
  have "t div (86400000::int) \<le> (100000000 * 86400000) div 86400000"
    by (rule zdiv_mono1) (use assms in simp_all)
  then show "Day t \<le> 100000000" by (simp add: Day_def msPerDay_def)
qed

lemma YearFromTime_small:
  assumes "\<bar>t\<bar> \<le> 8640000000000000"
  shows "\<bar>YearFromTime t\<bar> < 1000000"
proof -
  note d = Day_bounds [OF assms]
  define y where "y = YearFromDay (Day t)"
  have "400 * DayFromYear y \<le> 400 * Day t"
    using YearFromDay_lower [of "Day t"] by (simp add: y_def)
  with DayFromYear_bounds(1) [of y] d have u: "y < 1000000" by simp
  have "400 * Day t < 400 * DayFromYear (y + 1)"
    using YearFromDay_upper [of "Day t"] by (simp add: y_def)
  with DayFromYear_bounds(2) [of "y + 1"] d have "- 1000000 < y" by simp
  with u show ?thesis by (simp add: YearFromTime_def y_def)
qed

lemma Date_parse_date_string:
  assumes "\<bar>t\<bar> \<le> 8640000000000000"
  shows "Date_parse rt (date_string t) = Some (Day t * msPerDay)"
proof -
  have m: "0 \<le> MonthFromTime t + 1" "MonthFromTime t + 1 < 100"
    using MonthFromTime_range [of t] by simp_all
  have d: "0 \<le> DateFromTime t" "DateFromTime t < 100"
    using DateFromTime_range [of t] by simp_all
  have 1: "parse_year (date_string t) =
      Some (YearFromTime t, CHR ''-'' # pad 2 (nat (MonthFromTime t + 1)) @ CHR ''-'' # pad 2 (nat (DateFromTime t)))"
    using parse_year_year_string [OF YearFromTime_small [OF assms]]
    by (simp add: date_string_def)
  have 2: "parse_dash2 (CHR ''-'' # pad 2 (nat (MonthFromTime t + 1)) @ CHR ''-'' # pad 2 (nat (DateFromTime t)))
      = Some (MonthFromTime t + 1, CHR ''-'' # pad 2 (nat (DateFromTime t)))"
    by (rule parse_dash2_pad [OF m])
  have 3: "parse_dash2 (CHR ''-'' # pad 2 (nat (DateFromTime t))) = Some (DateFromTime t, [])"
    using parse_dash2_pad [OF d, of "[]"] by simp
  have "MakeDay (YearFromTime t) (MonthFromTime t) (DateFromTime t) = Day t"
    using MakeDay_shift [of t 0] by simp
  then have 4: "date_only (YearFromTime t) (MonthFromTime t + 1) (DateFromTime t) = TimeClip (Day t * msPerDay)"
    using MonthFromTime_range [of t] DateFromTime_range [of t]
    by (simp add: date_only_def MakeDate_def)
  have "\<bar>Day t * msPerDay\<bar> \<le> 8640000000000000"
    using Day_bounds [OF assms] by (simp add: msPerDay_def)
  then have 5: "TimeClip (Day t * msPerDay) = Some (Day t * msPerDay)"
    by (simp add: TimeClip_def)
  show ?thesis
    by (simp add: Date_parse_def 1 2 3 4 5)
qed

section \<open>trim\<close>

lemma trimEnd_idem: "trimEnd (trimEnd s) = trimEnd s"
  by (simp add: trimEnd_def)

lemma trimEnd_Cons_keep:
  assumes "\<not> StrWhiteSpaceChar c"
  shows "trimEnd (c # r) = c # trimEnd r"
proof -
  have "dropWhile StrWhiteSpaceChar (rev r @ [c]) = dropWhile StrWhiteSpaceChar (rev r) @ [c]"
    using assms by (simp add: dropWhile_append)
  then show ?thesis by (simp add: trimEnd_def)
qed

lemma trimStart_trimEnd_trimStart: "trimStart (trimEnd (trimStart s)) = trimEnd (trimStart s)"
proof (cases "trimStart s")
  case Nil
  show ?thesis unfolding Nil by (simp add: trimEnd_def trimStart_def)
next
  case (Cons c r)
  then have c: "\<not> StrWhiteSpaceChar c"
    using hd_dropWhile [of StrWhiteSpaceChar s] by (simp add: trimStart_def)
  show ?thesis
    unfolding Cons trimEnd_Cons_keep [OF c] using c by (simp add: trimStart_def)
qed

lemma trim_idem: "trim (trim s) = trim s"
  by (simp add: trim_def trimStart_trimEnd_trimStart trimEnd_idem)

section \<open>ORDER BY date DESC\<close>

lemma set_insert_by_date: "set (insert_by_date r xs) = insert r (set xs)"
  by (induction xs) auto

lemma set_order_by_date_desc: "set (order_by_date_desc rs) = set rs"
  by (induction rs) (simp_all add: set_insert_by_date)

lemma filter_insert_by_date:
  "length (filter P (insert_by_date r xs)) = length (filter P (r # xs))"
  by (induction xs) auto

lemma filter_order_by_date_desc:
  "length (filter P (order_by_date_desc rs)) = length (filter P rs)"
  by (induction rs) (simp_all add: filter_insert_by_date)

lemma length_order_by_date_desc: "length (order_by_date_desc rs) = length rs"
  using filter_order_by_date_desc [of "\<lambda>r. True" rs] by simp

lemma sorted_insert_by_date:
  "sorted_wrt (\<lambda>a b. row_date b \<le> row_date a) xs \<Longrightarrow>
   sorted_wrt (\<lambda>a b. row_date b \<le> row_date a) (insert_by_date r xs)"
  by (induction xs) (auto simp: set_insert_by_date)

lemma sorted_order_by_date_desc:
  "sorted_wrt (\<lambda>a b. row_date b \<le> row_date a) (order_by_date_desc rs)"
  by (induction rs) (simp_all add: sorted_insert_by_date)

lemma order_by_date_desc_newest:
  "\<forall>x \<in> set xs. row_date x < row_date r \<Longrightarrow>
   order_by_date_desc (xs @ [r]) = r # order_by_date_desc xs"
  by (induction xs) auto

section \<open>Row identifiers\<close>

lemma foldr_max_ge: "x \<in> set xs \<Longrightarrow> x \<le> foldr max xs (b::int)"
  by (induction xs) auto

lemma row_id_less_next_id: "r \<in> set (rows t) \<Longrightarrow> row_id r < next_id t"
  using foldr_max_ge [of "row_id r" "map row_id (rows t)" "sqlite_sequence t"]
  by (simp add: next_id_def)

lemma filter_distinct_id:
  "distinct (map row_id xs) \<Longrightarrow> r \<in> set xs \<Longrightarrow>
   length (filter (\<lambda>x. row_id x \<noteq> row_id r) xs) + 1 = length xs"
proof (induction xs)
  case Nil
  then show ?case by simp
next
  case (Cons x xs)
  show ?case
  proof (cases "row_id x = row_id r")
    case True
    have "row_id r \<notin> row_id ` set xs"
      using Cons.prems(1) True by simp
    then have "\<forall>y \<in> set xs. row_id y \<noteq> row_id r"
      by (metis imageI)
    then have "filter (\<lambda>y. row_id y \<noteq> row_id r) xs = xs"
      by (simp add: filter_id_conv)
    then show ?thesis using True by simp
  next
    case False
    then have "r \<in> set xs" using Cons.prems(2) by auto
    then show ?thesis using Cons False by simp
  qed
qed

section \<open>The value of weekAgo\<close>

lemma setDate_getDate:
  "setDate rt (Some now) (getDate rt now + k) =
     TimeClip (UTC rt (LocalTime rt now + k * msPerDay))"
  by (simp add: setDate_def getDate_def Let_def MakeDay_shift MakeDate_Day)

lemma Day_msPerDay_bounds: "Day t * msPerDay \<le> t" "t < Day t * msPerDay + msPerDay"
  using div_bounds [of 86400000 t] by (simp_all add: Day_def msPerDay_def)

lemma weekAgo_bounds:
  assumes z: "\<forall>u b. \<bar>LocalTZA rt u b\<bar> \<le> msPerDay"
  shows "now - 9 * msPerDay \<le> UTC rt (LocalTime rt now - 7 * msPerDay)"
    and "UTC rt (LocalTime rt now - 7 * msPerDay) \<le> now - 5 * msPerDay"
proof -
  have 1: "\<bar>LocalTZA rt now True\<bar> \<le> msPerDay" using z by blast
  have 2: "\<bar>LocalTZA rt (now + LocalTZA rt now True - 7 * msPerDay) False\<bar> \<le> msPerDay"
    using z by blast
  show "now - 9 * msPerDay \<le> UTC rt (LocalTime rt now - 7 * msPerDay)"
    using 1 2 by (simp add: UTC_def LocalTime_def)
  show "UTC rt (LocalTime rt now - 7 * msPerDay) \<le> now - 5 * msPerDay"
    using 1 2 by (simp add: UTC_def LocalTime_def)
qed

section \<open>addExpense, case by case\<close>

lemma gt_zero_iff: "gt_zero x \<longleftrightarrow> \<not> isNaN x \<and> \<not> le_zero x"
  by (cases x) (auto simp: gt_zero_def isNaN_def le_zero_def)

lemma Number_value_not_NaN: "Number_value a b \<noteq> NaN"
  by (simp add: Number_value_def Let_def)

lemma isNaN_parseFloat:
  "isNaN (parseFloat a) \<longleftrightarrow> StrDecimalLiteral (trimStart a) = None"
  by (auto simp: isNaN_def parseFloat_def Number_value_not_NaN Let_def
      split: option.splits literal.splits prod.splits)

lemma addExpense_reject_amount:
  "isNaN (parseFloat (amount s)) \<or> le_zero (parseFloat (amount s)) \<Longrightarrow>
   addExpense now s = (Alert ''Please enter a valid amount'', s)"
  by (simp add: addExpense_def)

lemma addExpense_reject_category:
  "\<not> isNaN (parseFloat (amount s)) \<Longrightarrow> \<not> le_zero (parseFloat (amount s)) \<Longrightarrow>
   trim (category s) = [] \<Longrightarrow> addExpense now s = (Alert ''Please enter a category'', s)"
  by (simp add: addExpense_def)

lemma addExpense_no_table:
  "\<not> isNaN (parseFloat (amount s)) \<Longrightarrow> \<not> le_zero (parseFloat (amount s)) \<Longrightarrow>
   trim (category s) \<noteq> [] \<Longrightarrow> db s = None \<Longrightarrow>
   addExpense now s = (Alert (''Error: '' @ message no_such_table), s)"
  by (simp add: addExpense_def insert_expense_def)

lemma addExpense_accept:
  "\<not> isNaN (parseFloat (amount s)) \<Longrightarrow> \<not> le_zero (parseFloat (amount s)) \<Longrightarrow>
   trim (category s) \<noteq> [] \<Longrightarrow> db s = Some t \<Longrightarrow>
   addExpense now s =
     (Nothing,
      s\<lparr>db := Some \<lparr>rows = rows t @ [new_expense now s t], sqlite_sequence = next_id t\<rparr>,
        amount := [], category := [], note' := [],
        expenses := order_by_date_desc (rows t @ [new_expense now s t])\<rparr>)"
  by (simp add: addExpense_def insert_expense_def loadExpenses_def select_expenses_def
      new_expense_def Let_def)

lemma addExpense_Nothing:
  assumes "addExpense now s = (Nothing, s')"
  shows "\<not> isNaN (parseFloat (amount s)) \<and> \<not> le_zero (parseFloat (amount s)) \<and>
         trim (category s) \<noteq> [] \<and> (\<exists>t. db s = Some t)"
proof -
  have 1: "\<not> (isNaN (parseFloat (amount s)) \<or> le_zero (parseFloat (amount s)))"
    using assms addExpense_reject_amount [of s now] by auto
  have 2: "trim (category s) \<noteq> []"
    using assms 1 addExpense_reject_category [of s now] by auto
  have 3: "db s \<noteq> None"
    using assms 1 2 addExpense_no_table [of s now] by auto
  show ?thesis using 1 2 3 by auto
qed

lemma addExpense_stored:
  "stored (snd (addExpense now s)) = stored s \<or>
   (\<exists>t. db s = Some t \<and> gt_zero (parseFloat (amount s)) \<and> trim (category s) \<noteq> [] \<and>
        stored (snd (addExpense now s)) = rows t @ [new_expense now s t])"
proof (cases "isNaN (parseFloat (amount s)) \<or> le_zero (parseFloat (amount s))")
  case True
  then show ?thesis by (simp add: addExpense_reject_amount)
next
  case a: False
  show ?thesis
  proof (cases "trim (category s) = []")
    case True
    then show ?thesis using a by (simp add: addExpense_reject_category)
  next
    case c: False
    show ?thesis
    proof (cases "db s")
      case None
      then show ?thesis using a c by (simp add: addExpense_no_table)
    next
      case (Some t)
      then show ?thesis
        using a c by (simp add: addExpense_accept stored_def gt_zero_iff)
    qed
  qed
qed

lemma row_date_new_expense: "row_date (new_expense now s t) = date_string now"
  by (simp add: new_expense_def split_T_0_toISOString)

lemma new_expense_once:
  "length (filter (\<lambda>r. row_id r = next_id t) (order_by_date_desc (rows t @ [new_expense now s t]))) = 1"
proof -
  have "\<forall>r \<in> set (rows t). row_id r \<noteq> next_id t"
    using row_id_less_next_id [of _ t] by fastforce
  then have "filter (\<lambda>r. row_id r = next_id t) (rows t) = []"
    by (simp add: filter_empty_conv)
  then show ?thesis
    by (simp add: filter_order_by_date_desc new_expense_def)
qed

lemma count_list_filter: "count_list xs x = length (filter (\<lambda>y. y = x) xs)"
  by (induction xs) auto

lemma new_expense_count:
  "count_list (order_by_date_desc (rows t @ [new_expense now s t])) (new_expense now s t) = 1"
proof -
  have "\<forall>r \<in> set (rows t). r \<noteq> new_expense now s t"
    using row_id_less_next_id [of _ t] by (fastforce simp: new_expense_def)
  then have "filter (\<lambda>r. r = new_expense now s t) (rows t) = []"
    by (simp add: filter_empty_conv)
  then show ?thesis
    by (simp add: count_list_filter filter_order_by_date_desc)
qed

section \<open>Evaluations\<close>

lemmas literal_defs =
  StrDecimalLiteral_def StrUnsignedDecimalLiteral_def ExponentPart_def DecimalDigit_def
  digit_value_def digits_value_def

lemma trimStart_plain [simp]: "s \<noteq> [] \<Longrightarrow> \<not> StrWhiteSpaceChar (hd s) \<Longrightarrow> trimStart s = s"
  by (cases s) (simp_all add: trimStart_def)

lemma fl_1250: "floor_log2 1250 100 = 3"
  by (simp add: floor_log2_def bitlen_def compute_floorlog)

lemma nv_1250: "Number_value 1250 100 = Finite (25 / 2)"
  apply (simp add: Number_value_def fl_1250)
  apply (simp add: round_half_even_def)
  apply (simp add: scale2_def)
  done

lemma parseFloat_12_50: "parseFloat ''12.50'' = Finite (25 / 2)"
  by (simp add: parseFloat_def literal_defs StrWhiteSpaceChar_def nv_1250)

lemma fl_12: "floor_log2 12 1 = 3"
  by (simp add: floor_log2_def bitlen_def compute_floorlog)

lemma nv_12: "Number_value 12 1 = Finite 12"
  apply (simp add: Number_value_def fl_12)
  apply (simp add: round_half_even_def)
  apply (simp add: scale2_def)
  done

lemma parseFloat_12abc: "parseFloat ''12abc'' = Finite 12"
  by (simp add: parseFloat_def literal_defs StrWhiteSpaceChar_def nv_12)

lemma parseFloat_abc: "parseFloat ''abc'' = NaN"
  by (simp add: parseFloat_def literal_defs StrWhiteSpaceChar_def)

lemma fl_3: "floor_log2 3 1 = 1"
  by (simp add: floor_log2_def bitlen_def compute_floorlog)

lemma nv_m3: "Number_value (- 3) 1 = Finite (- 3)"
  apply (simp add: Number_value_def fl_3)
  apply (simp add: round_half_even_def)
  apply (simp add: scale2_def)
  done

lemma parseFloat_m3: "parseFloat ''-3'' = Finite (- 3)"
  by (simp add: parseFloat_def literal_defs StrWhiteSpaceChar_def nv_m3)

lemma numeric_12abc: "\<not> numeric_input ''12abc''"
  by (simp add: numeric_input_def trim_def trimEnd_def literal_defs StrWhiteSpaceChar_def)

lemma numeric_12_50: "numeric_input ''12.50''"
  by (simp add: numeric_input_def trim_def trimEnd_def literal_defs StrWhiteSpaceChar_def)

lemma trim_Food: "trim ''Food'' = ''Food''"
  by (simp add: trim_def trimEnd_def StrWhiteSpaceChar_def)

lemma trim_blank: "trim ''   '' = []" "trim [] = []"
  by (simp_all add: trim_def trimEnd_def trimStart_def StrWhiteSpaceChar_def)

lemma str_less: "(''2024-03-08'' :: string) < ''2024-03-15''" "\<not> (''2024-03-15'' :: string) < ''2024-03-15''"
   "(''2024-03-15'' :: string) \<le> ''2024-03-15''"
  by simp_all

lemma pad_2: "pad 2 n = [digit_char (n div 10), digit_char n]"
proof -
  have "pad (Suc (Suc 0)) n = [digit_char (n div 10), digit_char n]" by simp
  then show ?thesis by (simp only: numeral_2_eq_2)
qed

lemma pad_3: "pad 3 n = [digit_char (n div 10 div 10), digit_char (n div 10), digit_char n]"
proof -
  have "pad (Suc (Suc (Suc 0))) n = [digit_char (n div 10 div 10), digit_char (n div 10), digit_char n]"
    by simp
  then show ?thesis by (simp only: numeral_3_eq_3)
qed

lemma pad_4:
  "pad 4 n = [digit_char (n div 10 div 10 div 10), digit_char (n div 10 div 10),
              digit_char (n div 10), digit_char n]"
proof -
  have e: "(4::nat) = Suc (Suc (Suc (Suc 0)))" by simp
  show ?thesis unfolding e by simp
qed

text \<open>2024-03-15T12:00:00Z.\<close>

lemma year_noon: "YearFromTime 1710504000000 = 2024"
  by (simp add: YearFromTime_def Day_def msPerDay_def YearFromDay_def DayFromYear_def)

lemma month_noon: "MonthFromTime 1710504000000 = 2"
  by (simp add: MonthFromTime_def DayWithinYear_def InLeapYear_def year_noon Day_def msPerDay_def
      DayFromYear_def DaysInYear_def)

lemma date_noon: "DateFromTime 1710504000000 = 15"
  by (simp add: DateFromTime_def DayWithinYear_def InLeapYear_def year_noon month_noon Day_def
      msPerDay_def DayFromYear_def DaysInYear_def)

lemma date_string_noon: "date_string 1710504000000 = ''2024-03-15''"
  by (simp add: date_string_def year_noon month_noon date_noon year_string_def pad_2 pad_4
      digit_char_def)

lemma toISOString_noon: "toISOString 1710504000000 = ''2024-03-15T12:00:00.000Z''"
  by (simp add: toISOString_def year_noon month_noon date_noon year_string_def pad_2 pad_3 pad_4
      digit_char_def)

lemmas parse_defs =
  Date_parse_def parse_year_def parse_dash2_def all_digits_def DecimalDigit_def
  digits_value_def digit_value_def date_only_def MakeDay_def MakeDate_def DayFromYear_def
  DaysInYear_def MonthStart_def msPerDay_def TimeClip_def

lemma parse_0308: "Date_parse rt ''2024-03-08'' = Some 1709856000000"
  by (simp add: parse_defs)

lemma parse_0215: "Date_parse rt ''2024-02-15'' = Some 1707955200000"
  by (simp add: parse_defs)

lemma weekAgo_noon:
  "setDate (fixed_zone 0) (Some 1710504000000) (getDate (fixed_zone 0) 1710504000000 - 7)
     = Some 1709899200000"
  using setDate_getDate [of "fixed_zone 0" 1710504000000 "- 7"]
  by (simp add: fixed_zone_def UTC_def LocalTime_def msPerDay_def TimeClip_def)

lemma monthAgo_noon:
  "setMonth (fixed_zone 0) (Some 1710504000000) (getMonth (fixed_zone 0) 1710504000000 - 1)
     = Some 1707998400000"
  by (simp add: setMonth_def getMonth_def fixed_zone_def UTC_def LocalTime_def year_noon
      month_noon date_noon MakeDay_def MakeDate_def DayFromYear_def DaysInYear_def MonthStart_def
      TimeWithinDay_def msPerDay_def TimeClip_def)

text \<open>2024-03-16T00:30:00Z, which is 2024-03-15T20:30 four hours west of Greenwich.\<close>

lemma year_night: "YearFromTime 1710549000000 = 2024"
  by (simp add: YearFromTime_def Day_def msPerDay_def YearFromDay_def DayFromYear_def)

lemma month_night: "MonthFromTime 1710549000000 = 2"
  by (simp add: MonthFromTime_def DayWithinYear_def InLeapYear_def year_night Day_def msPerDay_def
      DayFromYear_def DaysInYear_def)

lemma date_night: "DateFromTime 1710549000000 = 16"
  by (simp add: DateFromTime_def DayWithinYear_def InLeapYear_def year_night month_night Day_def
      msPerDay_def DayFromYear_def DaysInYear_def)

lemma date_string_night: "date_string 1710549000000 = ''2024-03-16''"
  by (simp add: date_string_def year_night month_night date_night year_string_def pad_2 pad_4
      digit_char_def)

lemma year_evening: "YearFromTime 1710534600000 = 2024"
  by (simp add: YearFromTime_def Day_def msPerDay_def YearFromDay_def DayFromYear_def)

lemma month_evening: "MonthFromTime 1710534600000 = 2"
  by (simp add: MonthFromTime_def DayWithinYear_def InLeapYear_def year_evening Day_def
      msPerDay_def DayFromYear_def DaysInYear_def)

lemma date_evening: "DateFromTime 1710534600000 = 15"
  by (simp add: DateFromTime_def DayWithinYear_def InLeapYear_def year_evening month_evening
      Day_def msPerDay_def DayFromYear_def DaysInYear_def)

lemma date_string_evening: "date_string 1710534600000 = ''2024-03-15''"
  by (simp add: date_string_def year_evening month_evening date_evening year_string_def pad_2
      pad_4 digit_char_def)

lemma next_id_empty: "next_id \<lparr>rows = [], sqlite_sequence = 0\<rparr> = 1"
  by (simp add: next_id_def)

lemmas date_defs =
  date_string_def YearFromTime_def YearFromDay_def Day_def msPerDay_def DayFromYear_def
  MonthFromTime_def DateFromTime_def DayWithinYear_def InLeapYear_def DaysInYear_def
  year_string_def pad_2 pad_4 digit_char_def

lemmas setter_defs = setAmount_def setCategory_def setNote_def setDateFilter_def

lemma fresh_screen:
  "setup_effect (mount None) =
     \<lparr>db = Some \<lparr>rows = [], sqlite_sequence = 0\<rparr>, expenses = [], amount = [],
      category = [], note' = [], dateFilter = ''all''\<rparr>"
  by (simp add: setup_effect_def mount_def drop_table_def create_table_def loadExpenses_def
      select_expenses_def Let_def)

section \<open>The filters\<close>

lemma week_filter_fixed_zone:
  "getFilteredExpenses (fixed_zone z) now (setDateFilter ''week'' s) =
     filter (\<lambda>e. Date_ge (Date_parse (fixed_zone z) (row_date e)) (TimeClip (now - 7 * msPerDay)))
       (expenses s)"
  using setDate_getDate [of "fixed_zone z" now "- 7"]
  by (simp add: getFilteredExpenses_def setDateFilter_def fixed_zone_def UTC_def LocalTime_def)

lemma Day_shift: "Day (t + k * msPerDay) = Day t + k"
  by (simp add: Day_def msPerDay_def)

lemma week_filter_boundary_row:
  assumes "\<bar>now\<bar> \<le> 8640000000000000" and "\<bar>now - 7 * msPerDay\<bar> \<le> 8640000000000000"
    and "row_date e = date_string (now - 7 * msPerDay)"
  shows "getFilteredExpenses (fixed_zone z) now (setDateFilter ''week'' (s\<lparr>expenses := [e]\<rparr>)) =
           (if TimeWithinDay now = 0 then [e] else [])"
proof -
  have 1: "Date_parse (fixed_zone z) (row_date e) = Some ((Day now - 7) * msPerDay)"
    using Date_parse_date_string [OF assms(2)] Day_shift [of now "- 7"] by (simp add: assms(3))
  have 2: "TimeClip (now - 7 * msPerDay) = Some (now - 7 * msPerDay)"
    using assms(2) by (simp add: TimeClip_def)
  have 3: "now = Day now * msPerDay + TimeWithinDay now"
    by (simp add: Day_def TimeWithinDay_def)
  have 4: "0 \<le> TimeWithinDay now"
    by (simp add: TimeWithinDay_def msPerDay_def)
  have "now - 7 * msPerDay \<le> (Day now - 7) * msPerDay \<longleftrightarrow> TimeWithinDay now = 0"
    using 3 4 by (simp add: algebra_simps) linarith
  then show ?thesis
    by (simp add: week_filter_fixed_zone 1 2 Date_ge_def)
qed

section \<open>Runs of the screen\<close>

lemma nv_3: "Number_value 3 1 = Finite 3"
  apply (simp add: Number_value_def fl_3)
  apply (simp add: round_half_even_def)
  apply (simp add: scale2_def)
  done

lemma parseFloat_3: "parseFloat ''3'' = Finite 3"
  by (simp add: parseFloat_def literal_defs StrWhiteSpaceChar_def nv_3)

lemma trim_Books: "trim ''Books'' = ''Books''"
  by (simp add: trim_def trimEnd_def StrWhiteSpaceChar_def)

lemma trim_milk: "trim ''  milk '' = ''milk''"
  by (simp add: trim_def trimEnd_def trimStart_def StrWhiteSpaceChar_def)

lemma date_string_eleven: "date_string 1710500400000 = ''2024-03-15''"
  by (simp add: date_defs)

lemma parse_0315: "Date_parse rt ''2024-03-15'' = Some 1710460800000"
  by (simp add: parse_defs)

text \<open>After the launch, the first expense of the day is added at 11:00 UTC.\<close>

lemma first_add:
  "addExpense 1710500400000 (setAmount ''3'' (setCategory ''Books'' (setup_effect (mount None)))) =
     (Nothing,
      \<lparr>db = Some \<lparr>rows = [\<lparr>row_id = 1, row_amount = Finite 3, row_category = ''Books'',
                           row_note = None, row_date = ''2024-03-15''\<rparr>],
                  sqlite_sequence = 1\<rparr>,
       expenses = [\<lparr>row_id = 1, row_amount = Finite 3, row_category = ''Books'',
                    row_note = None, row_date = ''2024-03-15''\<rparr>],
       amount = [], category = [], note' = [], dateFilter = ''all''\<rparr>)"
proof -
  let ?s = "setAmount ''3'' (setCategory ''Books'' (setup_effect (mount None)))"
  have s: "?s = \<lparr>db = Some \<lparr>rows = [], sqlite_sequence = 0\<rparr>, expenses = [], amount = ''3'',
      category = ''Books'', note' = [], dateFilter = ''all''\<rparr>"
    by (simp add: fresh_screen setter_defs)
  show ?thesis
    unfolding s
    by (subst addExpense_accept [where t = "\<lparr>rows = [], sqlite_sequence = 0\<rparr>"])
      (simp_all add: parseFloat_3 trim_Books trim_blank isNaN_def le_zero_def new_expense_def
        split_T_0_toISOString date_string_eleven next_id_empty)
qed

lemma addExpense_run:
  assumes "gt_zero (parseFloat a)" and "trim c \<noteq> []"
  shows "addExpense now \<lparr>db = Some t, expenses = es, amount = a, category = c, note' = n,
                          dateFilter = f\<rparr> =
     (Nothing,
      \<lparr>db = Some \<lparr>rows = rows t @
                   [\<lparr>row_id = next_id t, row_amount = parseFloat a, row_category = trim c,
                     row_note = (if trim n = [] then None else Some (trim n)),
                     row_date = date_string now\<rparr>],
                  sqlite_sequence = next_id t\<rparr>,
       expenses = order_by_date_desc (rows t @
                   [\<lparr>row_id = next_id t, row_amount = parseFloat a, row_category = trim c,
                     row_note = (if trim n = [] then None else Some (trim n)),
                     row_date = date_string now\<rparr>]),
       amount = [], category = [], note' = [], dateFilter = f\<rparr>)"
  using assms
  by (subst addExpense_accept [where t = t])
    (simp_all add: gt_zero_iff new_expense_def split_T_0_toISOString)

text \<open>The second expense of that day is added at 12:00 UTC.\<close>

lemma second_add:
  "addExpense 1710504000000
     (setAmount ''12.50'' (setCategory ''Food'' (setNote []
        (snd (addExpense 1710500400000
           (setAmount ''3'' (setCategory ''Books'' (setup_effect (mount None)))))))))
   = (Nothing,
      \<lparr>db = Some \<lparr>rows = [\<lparr>row_id = 1, row_amount = Finite 3, row_category = ''Books'',
                           row_note = None, row_date = ''2024-03-15''\<rparr>,
                          \<lparr>row_id = 2, row_amount = Finite (25 / 2), row_category = ''Food'',
                           row_note = None, row_date = ''2024-03-15''\<rparr>],
                  sqlite_sequence = 2\<rparr>,
       expenses = [\<lparr>row_id = 1, row_amount = Finite 3, row_category = ''Books'',
                    row_note = None, row_date = ''2024-03-15''\<rparr>,
                   \<lparr>row_id = 2, row_amount = Finite (25 / 2), row_category = ''Food'',
                    row_note = None, row_date = ''2024-03-15''\<rparr>],
       amount = [], category = [], note' = [], dateFilter = ''all''\<rparr>)"
proof -
  have "gt_zero (parseFloat ''12.50'')" "trim ''Food'' \<noteq> []"
    by (simp_all add: parseFloat_12_50 trim_Food gt_zero_def)
  then show ?thesis
    unfolding first_add snd_conv
    by (simp add: setter_defs addExpense_run parseFloat_12_50 trim_Food trim_blank
        date_string_noon next_id_def)
qed

lemma le_zero_m3: "le_zero (parseFloat ''-3'')"
  by (simp add: parseFloat_m3 le_zero_def)

lemma isNaN_abc: "isNaN (parseFloat ''abc'')"
  by (simp add: parseFloat_abc isNaN_def)

lemma literal_abc: "StrDecimalLiteral (trimStart ''abc'') = None"
  by (simp add: literal_defs StrWhiteSpaceChar_def)

lemma literal_12_50: "StrDecimalLiteral (trimStart ''12.50'') \<noteq> None"
  by (simp add: literal_defs StrWhiteSpaceChar_def)

lemma not_le_zero_12_50: "\<not> le_zero (parseFloat ''12.50'')"
  by (simp add: parseFloat_12_50 le_zero_def)

lemma trim_lunch: "trim ''lunch'' = ''lunch''"
  by (simp add: trim_def trimEnd_def StrWhiteSpaceChar_def)

section \<open>The claims of the specification\<close>

subsection \<open>The week filter (C1)\<close>

text \<open>
  Claim C1: the \<open>week\<close> filter keeps every row whose stored date is exactly 7 days before
  today and drops every row dated 8 or more days before today. The code does not keep the
  row dated 7 days before today: at 2024-03-15T12:00:00Z, in a zone on UTC, the row dated
  \<open>2024-03-08\<close> is read as 2024-03-08T00:00:00Z, which is before \<open>weekAgo\<close>,
  2024-03-08T12:00:00Z, and the filtered list is empty. (Lemma \<open>week_filter_boundary_row\<close>
  gives the general fact: such a row is kept only when the time of day is 00:00:00.000 UTC.)
\<close>

theorem week_filter_drops_row_dated_seven_days_ago:
  "toISOString 1710504000000 = ''2024-03-15T12:00:00.000Z'' \<and>
   getFilteredExpenses (fixed_zone 0) 1710504000000
     \<lparr>db = Some \<lparr>rows = [\<lparr>row_id = 1, row_amount = Finite 12, row_category = ''Food'',
                          row_note = None, row_date = ''2024-03-08''\<rparr>],
                 sqlite_sequence = 1\<rparr>,
      expenses = [\<lparr>row_id = 1, row_amount = Finite 12, row_category = ''Food'',
                   row_note = None, row_date = ''2024-03-08''\<rparr>],
      amount = [], category = [], note' = [], dateFilter = ''week''\<rparr> = []"
  by (simp add: toISOString_noon getFilteredExpenses_def weekAgo_noon parse_0308 Date_ge_def)

subsection \<open>The month filter (C2)\<close>

text \<open>
  Claim C2: the \<open>month\<close> filter keeps every row whose stored date is exactly one calendar
  month before today and drops every older row. The code does not keep the row dated one
  month before today: at 2024-03-15T12:00:00Z, in a zone on UTC, the row dated
  \<open>2024-02-15\<close> is read as 2024-02-15T00:00:00Z, which is before \<open>monthAgo\<close>,
  2024-02-15T12:00:00Z, and the filtered list is empty.
\<close>

theorem month_filter_drops_row_dated_one_month_ago:
  "toISOString 1710504000000 = ''2024-03-15T12:00:00.000Z'' \<and>
   getFilteredExpenses (fixed_zone 0) 1710504000000
     \<lparr>db = Some \<lparr>rows = [\<lparr>row_id = 1, row_amount = Finite 12, row_category = ''Food'',
                          row_note = None, row_date = ''2024-02-15''\<rparr>],
                 sqlite_sequence = 1\<rparr>,
      expenses = [\<lparr>row_id = 1, row_amount = Finite 12, row_category = ''Food'',
                   row_note = None, row_date = ''2024-02-15''\<rparr>],
      amount = [], category = [], note' = [], dateFilter = ''month''\<rparr> = []"
  by (simp add: toISOString_noon getFilteredExpenses_def monthAgo_noon parse_0215 Date_ge_def)

subsection \<open>Adding, then loading (C3)\<close>

text \<open>
  Claim C3, as stated, has the stored date equal to the current calendar day. It fails for
  the calendar day of the device: at 2024-03-16T00:30:00Z a device four hours west of
  Greenwich is on the evening of March 15 (its \<open>getDate\<close> is 15), and the row is stored with
  the date \<open>2024-03-16\<close>.
\<close>

theorem stored_date_is_not_local_day_counterexample:
  "toISOString 1710549000000 = ''2024-03-16T00:30:00.000Z'' \<and>
   getMonth (fixed_zone (- 14400000)) 1710549000000 = 2 \<and>
   getDate (fixed_zone (- 14400000)) 1710549000000 = 15 \<and>
   date_string (LocalTime (fixed_zone (- 14400000)) 1710549000000) = ''2024-03-15'' \<and>
   stored (snd (addExpense 1710549000000
     (setAmount ''12.50'' (setCategory ''Food'' (setup_effect (mount None))))))
   = [\<lparr>row_id = 1, row_amount = Finite (25 / 2), row_category = ''Food'', row_note = None,
       row_date = ''2024-03-16''\<rparr>]"
proof -
  have g: "gt_zero (parseFloat ''12.50'')" "trim ''Food'' \<noteq> []"
    by (simp_all add: parseFloat_12_50 trim_Food gt_zero_def)
  have 1: "toISOString 1710549000000 = ''2024-03-16T00:30:00.000Z''"
    by (simp add: toISOString_def year_night month_night date_night year_string_def pad_2 pad_3
        pad_4 digit_char_def)
  have 2: "LocalTime (fixed_zone (- 14400000)) 1710549000000 = 1710534600000"
    by (simp add: LocalTime_def fixed_zone_def)
  have 3: "stored (snd (addExpense 1710549000000
     (setAmount ''12.50'' (setCategory ''Food'' (setup_effect (mount None))))))
   = [\<lparr>row_id = 1, row_amount = Finite (25 / 2), row_category = ''Food'', row_note = None,
       row_date = ''2024-03-16''\<rparr>]"
    by (simp add: fresh_screen setter_defs addExpense_run [OF g] stored_def parseFloat_12_50
        trim_Food trim_blank date_string_night next_id_def)
  show ?thesis
    by (simp add: 1 2 3 getMonth_def getDate_def month_evening date_evening date_string_evening)
qed

text \<open>
  Claim C3, amended: for every valid submission (\<open>parseFloat\<close> of the amount is a number
  above 0, the category is not empty after trimming) on an existing table and at every
  valid time value, \<open>addExpense\<close> succeeds, and \<open>loadExpenses\<close> after it yields a list that
  holds the new expense exactly once (it is also the only row with the new id); the stored
  date is the calendar day of that moment in UTC, \<open>YYYY-MM-DD\<close>, which \<open>Date.parse\<close> reads
  back as the midnight that began this UTC day.
\<close>

theorem addExpense_then_loadExpenses:
  assumes "\<not> isNaN (parseFloat (amount s))" and "gt_zero (parseFloat (amount s))"
    and "trim (category s) \<noteq> []" and "db s = Some t"
    and "\<bar>now\<bar> \<le> 8640000000000000"
  shows "\<exists>s1 s2. addExpense now s = (Nothing, s1) \<and> loadExpenses s1 = Inr s2 \<and>
           count_list (expenses s2) (new_expense now s t) = 1 \<and>
           length (filter (\<lambda>r. row_id r = row_id (new_expense now s t)) (expenses s2)) = 1 \<and>
           row_date (new_expense now s t) = date_string now \<and>
           Date_parse rt (row_date (new_expense now s t)) = Some (Day now * msPerDay)"
proof -
  have v: "\<not> isNaN (parseFloat (amount s))" "\<not> le_zero (parseFloat (amount s))"
    using assms(1,2) by (simp_all add: gt_zero_iff)
  let ?n = "new_expense now s t"
  let ?s1 = "s\<lparr>db := Some \<lparr>rows = rows t @ [?n], sqlite_sequence = next_id t\<rparr>,
        amount := [], category := [], note' := [],
        expenses := order_by_date_desc (rows t @ [?n])\<rparr>"
  have 1: "addExpense now s = (Nothing, ?s1)"
    by (rule addExpense_accept [OF v assms(3,4)])
  have 2: "loadExpenses ?s1 = Inr ?s1"
    by (simp add: loadExpenses_def select_expenses_def)
  have 3: "count_list (expenses ?s1) ?n = 1"
    by (simp add: new_expense_count)
  have 4: "length (filter (\<lambda>r. row_id r = row_id ?n) (expenses ?s1)) = 1"
    using new_expense_once [of t now s] by (simp add: new_expense_def)
  have 5: "Date_parse rt (row_date ?n) = Some (Day now * msPerDay)"
    by (simp add: row_date_new_expense Date_parse_date_string [OF assms(5)])
  show ?thesis
    using 1 2 3 4 5 row_date_new_expense by blast
qed

text \<open>
  Witness for C3: on a table that holds one row, at 2024-03-15T12:00:00Z, the submission
  of \<open>12.50\<close> and \<open>Food\<close> is stored as row 2 with the date \<open>2024-03-15\<close> and is loaded
  once.
\<close>

theorem addExpense_then_loadExpenses_witness:
  "\<not> isNaN (parseFloat ''12.50'') \<and> gt_zero (parseFloat ''12.50'') \<and> trim ''Food'' \<noteq> [] \<and>
   \<bar>1710504000000 :: int\<bar> \<le> 8640000000000000 \<and>
   new_expense 1710504000000
     \<lparr>db = Some \<lparr>rows = [\<lparr>row_id = 1, row_amount = Finite 3, row_category = ''Books'',
                          row_note = None, row_date = ''2024-03-15''\<rparr>],
                 sqlite_sequence = 1\<rparr>,
      expenses = [], amount = ''12.50'', category = ''Food'', note' = [], dateFilter = ''all''\<rparr>
     \<lparr>rows = [\<lparr>row_id = 1, row_amount = Finite 3, row_category = ''Books'',
               row_note = None, row_date = ''2024-03-15''\<rparr>],
      sqlite_sequence = 1\<rparr>
   = \<lparr>row_id = 2, row_amount = Finite (25 / 2), row_category = ''Food'', row_note = None,
      row_date = ''2024-03-15''\<rparr> \<and>
   (\<exists>s1 s2.
      addExpense 1710504000000
        \<lparr>db = Some \<lparr>rows = [\<lparr>row_id = 1, row_amount = Finite 3, row_category = ''Books'',
                             row_note = None, row_date = ''2024-03-15''\<rparr>],
                    sqlite_sequence = 1\<rparr>,
         expenses = [], amount = ''12.50'', category = ''Food'', note' = [],
         dateFilter = ''all''\<rparr> = (Nothing, s1) \<and>
      loadExpenses s1 = Inr s2 \<and>
      count_list (expenses s2)
        \<lparr>row_id = 2, row_amount = Finite (25 / 2), row_category = ''Food'', row_note = None,
         row_date = ''2024-03-15''\<rparr> = 1 \<and>
      length (filter (\<lambda>r. row_id r = 2) (expenses s2)) = 1) \<and>
   date_string 1710504000000 = ''2024-03-15'' \<and>
   Date_parse (fixed_zone 0) ''2024-03-15'' = Some (Day 1710504000000 * msPerDay)"
proof -
  let ?t = "\<lparr>rows = [\<lparr>row_id = 1, row_amount = Finite 3, row_category = ''Books'',
               row_note = None, row_date = ''2024-03-15''\<rparr>],
      sqlite_sequence = 1\<rparr>"
  let ?s = "\<lparr>db = Some ?t,
      expenses = [], amount = ''12.50'', category = ''Food'', note' = [], dateFilter = ''all''\<rparr>"
  have n: "new_expense 1710504000000 ?s ?t =
      \<lparr>row_id = 2, row_amount = Finite (25 / 2), row_category = ''Food'', row_note = None,
       row_date = ''2024-03-15''\<rparr>"
    by (simp add: new_expense_def parseFloat_12_50 trim_Food trim_blank split_T_0_toISOString
        date_string_noon next_id_def)
  have h: "\<not> isNaN (parseFloat (amount ?s))" "gt_zero (parseFloat (amount ?s))"
    "trim (category ?s) \<noteq> []" "db ?s = Some ?t" "\<bar>1710504000000 :: int\<bar> \<le> 8640000000000000"
    by (simp_all add: parseFloat_12_50 trim_Food gt_zero_def isNaN_def)
  show ?thesis
    using addExpense_then_loadExpenses [OF h, of "fixed_zone 0"] h
    by (simp add: n date_string_noon) blast
qed

subsection \<open>Validation of the amount (C4)\<close>

text \<open>
  Claim C4, as stated, has every non-numeric amount rejected. The input \<open>12abc\<close> is not a
  number, yet \<open>parseFloat\<close> reads its leading \<open>12\<close> and the row is inserted with the
  amount 12.
\<close>

theorem addExpense_accepts_12abc_counterexample:
  "\<not> numeric_input ''12abc'' \<and>
   addExpense 1710504000000
     (setAmount ''12abc'' (setCategory ''Food'' (setup_effect (mount None))))
   = (Nothing,
      \<lparr>db = Some \<lparr>rows = [\<lparr>row_id = 1, row_amount = Finite 12, row_category = ''Food'',
                           row_note = None, row_date = ''2024-03-15''\<rparr>],
                  sqlite_sequence = 1\<rparr>,
       expenses = [\<lparr>row_id = 1, row_amount = Finite 12, row_category = ''Food'',
                    row_note = None, row_date = ''2024-03-15''\<rparr>],
       amount = [], category = [], note' = [], dateFilter = ''all''\<rparr>)"
proof -
  have "gt_zero (parseFloat ''12abc'')" "trim ''Food'' \<noteq> []"
    by (simp_all add: parseFloat_12abc trim_Food gt_zero_def)
  then show ?thesis
    by (simp add: numeric_12abc fresh_screen setter_defs addExpense_run parseFloat_12abc
        trim_Food trim_blank date_string_noon next_id_def)
qed

text \<open>
  Claim C4, amended: \<open>parseFloat\<close> yields NaN exactly when the input, leading white space
  aside, does not begin with a decimal literal; \<open>addExpense\<close> rejects the submission, with
  the alert and an unchanged state, when the parsed value is NaN or is at most 0; and
  every row that \<open>addExpense\<close> inserts has an amount above 0.
\<close>

theorem addExpense_amount_validation:
  "(isNaN (parseFloat (amount s)) \<longleftrightarrow> StrDecimalLiteral (trimStart (amount s)) = None) \<and>
   (isNaN (parseFloat (amount s)) \<or> le_zero (parseFloat (amount s)) \<longrightarrow>
      addExpense now s = (Alert ''Please enter a valid amount'', s)) \<and>
   (\<forall>r \<in> set (stored (snd (addExpense now s))).
      r \<notin> set (stored s) \<longrightarrow> gt_zero (row_amount r))"
proof (intro conjI impI ballI)
  show "isNaN (parseFloat (amount s)) \<longleftrightarrow> StrDecimalLiteral (trimStart (amount s)) = None"
    by (rule isNaN_parseFloat)
next
  assume "isNaN (parseFloat (amount s)) \<or> le_zero (parseFloat (amount s))"
  then show "addExpense now s = (Alert ''Please enter a valid amount'', s)"
    by (rule addExpense_reject_amount)
next
  fix r
  assume r: "r \<in> set (stored (snd (addExpense now s)))" "r \<notin> set (stored s)"
  from addExpense_stored [of now s] r obtain t where
    t: "db s = Some t" "gt_zero (parseFloat (amount s))"
       "stored (snd (addExpense now s)) = rows t @ [new_expense now s t]"
    by auto
  have "stored s = rows t"
    using t(1) by (simp add: stored_def)
  then have "r = new_expense now s t"
    using r t(3) by auto
  then show "gt_zero (row_amount r)"
    using t(2) by (simp add: new_expense_def)
qed

text \<open>
  Witness for C4: \<open>abc\<close> parses to NaN and \<open>-3\<close> to a value below 0, both are rejected
  with the state unchanged; \<open>12.50\<close> inserts a row, whose amount 12.5 is above 0.
\<close>

theorem addExpense_amount_validation_witness:
  "isNaN (parseFloat ''abc'') \<and>
   addExpense 1710504000000
     \<lparr>db = Some \<lparr>rows = [], sqlite_sequence = 0\<rparr>, expenses = [], amount = ''abc'',
      category = ''Food'', note' = [], dateFilter = ''all''\<rparr>
   = (Alert ''Please enter a valid amount'',
      \<lparr>db = Some \<lparr>rows = [], sqlite_sequence = 0\<rparr>, expenses = [], amount = ''abc'',
       category = ''Food'', note' = [], dateFilter = ''all''\<rparr>) \<and>
   le_zero (parseFloat ''-3'') \<and>
   addExpense 1710504000000
     \<lparr>db = Some \<lparr>rows = [], sqlite_sequence = 0\<rparr>, expenses = [], amount = ''-3'',
      category = ''Food'', note' = [], dateFilter = ''all''\<rparr>
   = (Alert ''Please enter a valid amount'',
      \<lparr>db = Some \<lparr>rows = [], sqlite_sequence = 0\<rparr>, expenses = [], amount = ''-3'',
       category = ''Food'', note' = [], dateFilter = ''all''\<rparr>) \<and>
   \<lparr>row_id = 1, row_amount = Finite (25 / 2), row_category = ''Food'', row_note = None,
    row_date = ''2024-03-15''\<rparr>
     \<in> set (stored (snd (addExpense 1710504000000
         \<lparr>db = Some \<lparr>rows = [], sqlite_sequence = 0\<rparr>, expenses = [], amount = ''12.50'',
          category = ''Food'', note' = [], dateFilter = ''all''\<rparr>))) \<and>
   \<lparr>row_id = 1, row_amount = Finite (25 / 2), row_category = ''Food'', row_note = None,
    row_date = ''2024-03-15''\<rparr>
     \<notin> set (stored \<lparr>db = Some \<lparr>rows = [], sqlite_sequence = 0\<rparr>, expenses = [],
          amount = ''12.50'', category = ''Food'', note' = [], dateFilter = ''all''\<rparr>) \<and>
   gt_zero (row_amount \<lparr>row_id = 1, row_amount = Finite (25 / 2), row_category = ''Food'',
     row_note = None, row_date = ''2024-03-15''\<rparr>)"
proof -
  have g: "gt_zero (parseFloat ''12.50'')" "trim ''Food'' \<noteq> []"
    by (simp_all add: parseFloat_12_50 trim_Food gt_zero_def)
  let ?r = "\<lparr>row_id = 1, row_amount = Finite (25 / 2), row_category = ''Food'', row_note = None,
    row_date = ''2024-03-15''\<rparr>"
  let ?s = "\<lparr>db = Some \<lparr>rows = [], sqlite_sequence = 0\<rparr>, expenses = [], amount = ''12.50'',
          category = ''Food'', note' = [], dateFilter = ''all''\<rparr>"
  have i: "?r \<in> set (stored (snd (addExpense 1710504000000 ?s)))"
    by (simp add: addExpense_run [OF g] stored_def parseFloat_12_50 trim_Food trim_blank
        date_string_noon next_id_def)
  have n: "?r \<notin> set (stored ?s)"
    by (simp add: stored_def)
  have p: "gt_zero (row_amount ?r)"
    using addExpense_amount_validation [of ?s 1710504000000] i n by blast
  show ?thesis
    using i n p
      addExpense_amount_validation [of
        "\<lparr>db = Some \<lparr>rows = [], sqlite_sequence = 0\<rparr>, expenses = [], amount = ''abc'',
          category = ''Food'', note' = [], dateFilter = ''all''\<rparr>" 1710504000000]
      addExpense_amount_validation [of
        "\<lparr>db = Some \<lparr>rows = [], sqlite_sequence = 0\<rparr>, expenses = [], amount = ''-3'',
          category = ''Food'', note' = [], dateFilter = ''all''\<rparr>" 1710504000000]
    by (simp add: isNaN_abc le_zero_m3)
qed

subsection \<open>Category and note (C5)\<close>

text \<open>
  Claim C5: \<open>addExpense\<close> rejects the submission when the category is empty after
  trimming (the state is unchanged and an alert is shown); when the submission succeeds,
  exactly one row is appended to the table, its note is the trimmed text of the note field
  if that is not empty and NULL otherwise, and its category is the trimmed category, which
  is not empty after trimming.
\<close>

theorem addExpense_category_and_note:
  "(trim (category s) = [] \<longrightarrow> (\<exists>m. addExpense now s = (Alert m, s))) \<and>
   (\<forall>s'. addExpense now s = (Nothing, s') \<longrightarrow>
      (\<exists>t r. db s = Some t \<and> stored s' = rows t @ [r] \<and>
         row_note r = (if trim (note' s) = [] then None else Some (trim (note' s))) \<and>
         row_category r = trim (category s) \<and>
         trim (row_category r) \<noteq> []))"
proof (intro conjI allI impI)
  assume c: "trim (category s) = []"
  show "\<exists>m. addExpense now s = (Alert m, s)"
  proof (cases "isNaN (parseFloat (amount s)) \<or> le_zero (parseFloat (amount s))")
    case True
    then show ?thesis by (simp add: addExpense_reject_amount)
  next
    case False
    then show ?thesis using c by (simp add: addExpense_reject_category)
  qed
next
  fix s'
  assume a: "addExpense now s = (Nothing, s')"
  from addExpense_Nothing [OF a] obtain t where
    v: "\<not> isNaN (parseFloat (amount s))" "\<not> le_zero (parseFloat (amount s))"
       "trim (category s) \<noteq> []" "db s = Some t"
    by blast
  have "stored s' = rows t @ [new_expense now s t]"
    using a addExpense_accept [OF v, of now] by (auto simp: stored_def)
  moreover have "trim (row_category (new_expense now s t)) \<noteq> []"
    using v(3) by (simp add: new_expense_def trim_idem)
  ultimately show "\<exists>t r. db s = Some t \<and> stored s' = rows t @ [r] \<and>
         row_note r = (if trim (note' s) = [] then None else Some (trim (note' s))) \<and>
         row_category r = trim (category s) \<and>
         trim (row_category r) \<noteq> []"
    using v(4) by (intro exI [of _ t] exI [of _ "new_expense now s t"]) (simp add: new_expense_def)
qed

text \<open>
  Witness for C5: a category of three spaces is rejected; with the category \<open>Food\<close>, the
  note \<open>  milk \<close> is stored as \<open>milk\<close> and a note of three spaces is stored as NULL.
\<close>

theorem addExpense_category_and_note_witness:
  "trim ''   '' = [] \<and>
   (\<exists>m. addExpense 1710504000000
          \<lparr>db = Some \<lparr>rows = [], sqlite_sequence = 0\<rparr>, expenses = [], amount = ''12.50'',
           category = ''   '', note' = ''x'', dateFilter = ''all''\<rparr>
        = (Alert m,
           \<lparr>db = Some \<lparr>rows = [], sqlite_sequence = 0\<rparr>, expenses = [], amount = ''12.50'',
            category = ''   '', note' = ''x'', dateFilter = ''all''\<rparr>)) \<and>
   (\<exists>s'. addExpense 1710504000000
          \<lparr>db = Some \<lparr>rows = [], sqlite_sequence = 0\<rparr>, expenses = [], amount = ''12.50'',
           category = ''Food'', note' = ''  milk '', dateFilter = ''all''\<rparr> = (Nothing, s') \<and>
        (\<exists>r. stored s' = [r] \<and> row_note r = Some ''milk'' \<and> row_category r = ''Food'' \<and>
             trim (row_category r) \<noteq> [])) \<and>
   (\<exists>s'. addExpense 1710504000000
          \<lparr>db = Some \<lparr>rows = [], sqlite_sequence = 0\<rparr>, expenses = [], amount = ''12.50'',
           category = ''Food'', note' = ''   '', dateFilter = ''all''\<rparr> = (Nothing, s') \<and>
        (\<exists>r. stored s' = [r] \<and> row_note r = None \<and> row_category r = ''Food'' \<and>
             trim (row_category r) \<noteq> []))"
proof -
  have g: "gt_zero (parseFloat ''12.50'')" "trim ''Food'' \<noteq> []"
    by (simp_all add: parseFloat_12_50 trim_Food gt_zero_def)
  let ?a = "\<lparr>db = Some \<lparr>rows = [], sqlite_sequence = 0\<rparr>, expenses = [], amount = ''12.50'',
           category = ''Food'', note' = ''  milk '', dateFilter = ''all''\<rparr>"
  let ?b = "\<lparr>db = Some \<lparr>rows = [], sqlite_sequence = 0\<rparr>, expenses = [], amount = ''12.50'',
           category = ''Food'', note' = ''   '', dateFilter = ''all''\<rparr>"
  let ?c = "\<lparr>db = Some \<lparr>rows = [], sqlite_sequence = 0\<rparr>, expenses = [], amount = ''12.50'',
           category = ''   '', note' = ''x'', dateFilter = ''all''\<rparr>"
  obtain sa where a: "addExpense 1710504000000 ?a = (Nothing, sa)"
    using addExpense_run [OF g] by blast
  obtain sb where b: "addExpense 1710504000000 ?b = (Nothing, sb)"
    using addExpense_run [OF g] by blast
  have 1: "\<exists>m. addExpense 1710504000000 ?c = (Alert m, ?c)"
    using addExpense_category_and_note [of ?c 1710504000000] by (simp add: trim_blank)
  have 2: "\<exists>r. stored sa = [r] \<and> row_note r = Some ''milk'' \<and> row_category r = ''Food'' \<and>
             trim (row_category r) \<noteq> []"
    using addExpense_category_and_note [of ?a 1710504000000] a
    by (simp add: trim_milk trim_Food)
  have 3: "\<exists>r. stored sb = [r] \<and> row_note r = None \<and> row_category r = ''Food'' \<and>
             trim (row_category r) \<noteq> []"
    using addExpense_category_and_note [of ?b 1710504000000] b
    by (simp add: trim_blank trim_Food)
  show ?thesis
    using 1 2 3 a b by (simp add: trim_blank)
qed

subsection \<open>Deleting a row (C6)\<close>

text \<open>
  Claim C6: on an existing table, \<open>deleteExpense i\<close> leaves in the table exactly the rows
  whose id is not \<open>i\<close>, unchanged and in their order, and the reloaded list holds the same
  rows; every row with another id remains; and, the ids being distinct as the primary key
  makes them, a row with the id \<open>i\<close> is the only one removed.
\<close>

theorem deleteExpense_removes_that_row:
  assumes "db s = Some t"
  shows "\<exists>s'. deleteExpense i s = Inr s' \<and>
           stored s' = filter (\<lambda>r. row_id r \<noteq> i) (rows t) \<and>
           set (expenses s') = {r \<in> set (rows t). row_id r \<noteq> i} \<and>
           (\<forall>r \<in> set (rows t). row_id r \<noteq> i \<longrightarrow> r \<in> set (stored s')) \<and>
           (\<forall>r \<in> set (rows t).
              distinct (map row_id (rows t)) \<longrightarrow> row_id r = i \<longrightarrow>
              length (stored s') + 1 = length (rows t))"
proof -
  have "\<forall>r \<in> set (rows t). distinct (map row_id (rows t)) \<longrightarrow> row_id r = i \<longrightarrow>
         length (filter (\<lambda>r. row_id r \<noteq> i) (rows t)) + 1 = length (rows t)"
    using filter_distinct_id by blast
  then show ?thesis
    using assms
    by (simp add: deleteExpense_def delete_expense_def loadExpenses_def select_expenses_def
        stored_def set_order_by_date_desc)
qed

text \<open>
  Witness for C6: from a table with the rows 1 and 2, deleting 1 leaves row 2 alone.
\<close>

theorem deleteExpense_removes_that_row_witness:
  "distinct (map row_id
      [\<lparr>row_id = 1, row_amount = Finite 3, row_category = ''Books'', row_note = None,
        row_date = ''2024-03-15''\<rparr>,
       \<lparr>row_id = 2, row_amount = Finite (25 / 2), row_category = ''Food'', row_note = None,
        row_date = ''2024-03-15''\<rparr>]) \<and>
   (\<exists>s'. deleteExpense 1
      \<lparr>db = Some \<lparr>rows = [\<lparr>row_id = 1, row_amount = Finite 3, row_category = ''Books'',
                           row_note = None, row_date = ''2024-03-15''\<rparr>,
                          \<lparr>row_id = 2, row_amount = Finite (25 / 2), row_category = ''Food'',
                           row_note = None, row_date = ''2024-03-15''\<rparr>],
                  sqlite_sequence = 2\<rparr>,
       expenses = [\<lparr>row_id = 1, row_amount = Finite 3, row_category = ''Books'',
                    row_note = None, row_date = ''2024-03-15''\<rparr>,
                   \<lparr>row_id = 2, row_amount = Finite (25 / 2), row_category = ''Food'',
                    row_note = None, row_date = ''2024-03-15''\<rparr>],
       amount = [], category = [], note' = [], dateFilter = ''all''\<rparr> = Inr s' \<and>
      stored s' = [\<lparr>row_id = 2, row_amount = Finite (25 / 2), row_category = ''Food'',
                    row_note = None, row_date = ''2024-03-15''\<rparr>] \<and>
      set (expenses s') = {\<lparr>row_id = 2, row_amount = Finite (25 / 2), row_category = ''Food'',
                    row_note = None, row_date = ''2024-03-15''\<rparr>} \<and>
      length (stored s') + 1 = 2)"
proof -
  let ?r1 = "\<lparr>row_id = 1, row_amount = Finite 3, row_category = ''Books'', row_note = None,
        row_date = ''2024-03-15''\<rparr>"
  let ?r2 = "\<lparr>row_id = 2, row_amount = Finite (25 / 2), row_category = ''Food'', row_note = None,
        row_date = ''2024-03-15''\<rparr>"
  let ?t = "\<lparr>rows = [?r1, ?r2], sqlite_sequence = 2\<rparr>"
  let ?s = "\<lparr>db = Some ?t, expenses = [?r1, ?r2], amount = [], category = [], note' = [],
             dateFilter = ''all''\<rparr>"
  have "db ?s = Some ?t" by simp
  from deleteExpense_removes_that_row [OF this, of 1]
  obtain s' where h: "deleteExpense 1 ?s = Inr s'"
    "stored s' = filter (\<lambda>r. row_id r \<noteq> 1) (rows ?t)"
    "set (expenses s') = {r \<in> set (rows ?t). row_id r \<noteq> 1}"
    "\<forall>r \<in> set (rows ?t). distinct (map row_id (rows ?t)) \<longrightarrow> row_id r = 1 \<longrightarrow>
       length (stored s') + 1 = length (rows ?t)"
    by blast
  have 1: "stored s' = [?r2]" using h(2) by simp
  have "{r \<in> set (rows ?t). row_id r \<noteq> 1} = {?r2}" by auto
  then have 2: "set (expenses s') = {?r2}" using h(3) by simp
  have 3: "length (stored s') + 1 = 2" using h(4) by simp
  have 4: "distinct (map row_id [?r1, ?r2])" by simp
  show ?thesis using h(1) 1 2 3 4 by blast
qed

subsection \<open>The example of the specification (C7)\<close>

text \<open>
  Claim C7, as stated, has the added row first in the \<open>all\<close> and \<open>week\<close> views. It is
  not first when the table already holds a row of the same day: after a first expense
  added at 2024-03-15T11:00:00Z, the expense \<open>12.50\<close>, \<open>Food\<close> added at 12:00:00Z is second
  in both views, since the rows are ordered by their date alone.
\<close>

theorem added_expense_not_first_counterexample:
  "getFilteredExpenses (fixed_zone 0) 1710504000000
     (setDateFilter ''all''
        (snd (addExpense 1710504000000
           (setAmount ''12.50'' (setCategory ''Food'' (setNote []
              (snd (addExpense 1710500400000
                 (setAmount ''3'' (setCategory ''Books'' (setup_effect (mount None))))))))))))
   = [\<lparr>row_id = 1, row_amount = Finite 3, row_category = ''Books'',
        row_note = None, row_date = ''2024-03-15''\<rparr>,
      \<lparr>row_id = 2, row_amount = Finite (25 / 2), row_category = ''Food'',
        row_note = None, row_date = ''2024-03-15''\<rparr>] \<and>
   getFilteredExpenses (fixed_zone 0) 1710504000000
     (setDateFilter ''week''
        (snd (addExpense 1710504000000
           (setAmount ''12.50'' (setCategory ''Food'' (setNote []
              (snd (addExpense 1710500400000
                 (setAmount ''3'' (setCategory ''Books'' (setup_effect (mount None))))))))))))
   = [\<lparr>row_id = 1, row_amount = Finite 3, row_category = ''Books'',
        row_note = None, row_date = ''2024-03-15''\<rparr>,
      \<lparr>row_id = 2, row_amount = Finite (25 / 2), row_category = ''Food'',
        row_note = None, row_date = ''2024-03-15''\<rparr>]"
  by (simp add: second_add setDateFilter_def getFilteredExpenses_def weekAgo_noon parse_0315
      Date_ge_def)

text \<open>
  Claim C7, amended: on an existing table, adding the amount \<open>12.50\<close>, the category
  \<open>Food\<close> and an empty note stores the row with the amount 12.5, the category \<open>Food\<close>, the
  note NULL and the date of the current day in UTC; when every other stored row has an
  earlier date, that row is at position 0 of the \<open>all\<close> view and of the \<open>week\<close> view, for
  views rendered up to four days after the add (the clock being past 1970 and within the
  range of time values, and local time within a day of UTC).
\<close>

theorem added_expense_first_in_views:
  assumes "db s = Some t"
    and "amount s = ''12.50''" and "category s = ''Food''" and "note' s = []"
    and "\<forall>r \<in> set (rows t). row_date r < date_string now"
    and "0 \<le> now" and "now \<le> now'" and "now' \<le> now + 4 * msPerDay"
    and "now' \<le> 8640000000000000"
    and "\<forall>u b. \<bar>LocalTZA rt u b\<bar> \<le> msPerDay"
  shows "\<exists>s' rest.
           addExpense now s = (Nothing, s') \<and>
           stored s' = rows t @ [\<lparr>row_id = next_id t, row_amount = Finite (25 / 2),
                                   row_category = ''Food'', row_note = None,
                                   row_date = date_string now\<rparr>] \<and>
           getFilteredExpenses rt now' (setDateFilter ''all'' s') =
             \<lparr>row_id = next_id t, row_amount = Finite (25 / 2), row_category = ''Food'',
              row_note = None, row_date = date_string now\<rparr> # order_by_date_desc (rows t) \<and>
           getFilteredExpenses rt now' (setDateFilter ''week'' s') =
             \<lparr>row_id = next_id t, row_amount = Finite (25 / 2), row_category = ''Food'',
              row_note = None, row_date = date_string now\<rparr> # rest"
proof -
  let ?n = "\<lparr>row_id = next_id t, row_amount = Finite (25 / 2), row_category = ''Food'',
             row_note = None, row_date = date_string now\<rparr>"
  have n: "new_expense now s t = ?n"
    by (simp add: new_expense_def assms(2,3,4) parseFloat_12_50 trim_Food trim_blank
        split_T_0_toISOString)
  have v: "\<not> isNaN (parseFloat (amount s))" "\<not> le_zero (parseFloat (amount s))"
    "trim (category s) \<noteq> []"
    by (simp_all add: assms(2,3) parseFloat_12_50 trim_Food isNaN_def le_zero_def)
  let ?s' = "s\<lparr>db := Some \<lparr>rows = rows t @ [?n], sqlite_sequence = next_id t\<rparr>,
        amount := [], category := [], note' := [],
        expenses := order_by_date_desc (rows t @ [?n])\<rparr>"
  have 1: "addExpense now s = (Nothing, ?s')"
    using addExpense_accept [OF v assms(1), of now] by (simp add: n)
  have 2: "stored ?s' = rows t @ [?n]"
    by (simp add: stored_def)
  have o: "order_by_date_desc (rows t @ [?n]) = ?n # order_by_date_desc (rows t)"
    by (rule order_by_date_desc_newest) (use assms(5) in simp)
  have 3: "getFilteredExpenses rt now' (setDateFilter ''all'' ?s') = ?n # order_by_date_desc (rows t)"
    by (simp add: getFilteredExpenses_def setDateFilter_def o)
  have r: "\<bar>now\<bar> \<le> 8640000000000000"
    using assms(6,7,9) by simp
  have p: "Date_parse rt (row_date ?n) = Some (Day now * msPerDay)"
    using Date_parse_date_string [OF r] by simp
  have w: "setDate rt (Some now') (getDate rt now' - 7) =
      TimeClip (UTC rt (LocalTime rt now' - 7 * msPerDay))"
    using setDate_getDate [of rt now' "- 7"] by simp
  note b = weekAgo_bounds [OF assms(10), of now']
  have c: "TimeClip (UTC rt (LocalTime rt now' - 7 * msPerDay)) =
      Some (UTC rt (LocalTime rt now' - 7 * msPerDay))"
    using b assms(6,7,9) by (simp add: TimeClip_def msPerDay_def)
  have "UTC rt (LocalTime rt now' - 7 * msPerDay) \<le> Day now * msPerDay"
    using b(2) assms(8) Day_msPerDay_bounds(2) [of now] by (simp add: msPerDay_def)
  then have k: "Date_ge (Date_parse rt (row_date ?n)) (setDate rt (Some now') (getDate rt now' - 7))"
    by (simp only: p w c Date_ge_def option.case)
  have 4: "getFilteredExpenses rt now' (setDateFilter ''week'' ?s') =
      ?n # filter (\<lambda>e. Date_ge (Date_parse rt (row_date e))
                           (setDate rt (Some now') (getDate rt now' - 7)))
             (order_by_date_desc (rows t))"
    using k by (simp add: getFilteredExpenses_def setDateFilter_def o)
  show ?thesis
    using 1 2 3 4 by blast
qed

text \<open>
  Witness for C7: on a table holding one row dated \<open>2024-03-08\<close>, the row added at
  2024-03-15T12:00:00Z is first in both views rendered at that moment.
\<close>

theorem added_expense_first_in_views_witness:
  "''2024-03-08'' < date_string 1710504000000 \<and>
   \<bar>LocalTZA (fixed_zone 0) 1710504000000 True\<bar> \<le> msPerDay \<and>
   (\<exists>s' rest.
      addExpense 1710504000000
        \<lparr>db = Some \<lparr>rows = [\<lparr>row_id = 1, row_amount = Finite 3, row_category = ''Books'',
                             row_note = None, row_date = ''2024-03-08''\<rparr>],
                    sqlite_sequence = 1\<rparr>,
         expenses = [\<lparr>row_id = 1, row_amount = Finite 3, row_category = ''Books'',
                      row_note = None, row_date = ''2024-03-08''\<rparr>],
         amount = ''12.50'', category = ''Food'', note' = [], dateFilter = ''all''\<rparr>
        = (Nothing, s') \<and>
      getFilteredExpenses (fixed_zone 0) 1710504000000 (setDateFilter ''all'' s') =
        [\<lparr>row_id = 2, row_amount = Finite (25 / 2), row_category = ''Food'',
          row_note = None, row_date = ''2024-03-15''\<rparr>,
         \<lparr>row_id = 1, row_amount = Finite 3, row_category = ''Books'',
          row_note = None, row_date = ''2024-03-08''\<rparr>] \<and>
      getFilteredExpenses (fixed_zone 0) 1710504000000 (setDateFilter ''week'' s') =
        \<lparr>row_id = 2, row_amount = Finite (25 / 2), row_category = ''Food'',
         row_note = None, row_date = ''2024-03-15''\<rparr> # rest)"
proof -
  have h: "\<forall>r \<in> set (rows \<lparr>rows = [\<lparr>row_id = 1, row_amount = Finite 3, row_category = ''Books'',
                  row_note = None, row_date = ''2024-03-08''\<rparr>], sqlite_sequence = 1\<rparr>).
      row_date r < date_string 1710504000000"
    by (simp add: date_string_noon)
  have z: "\<forall>u b. \<bar>LocalTZA (fixed_zone 0) u b\<bar> \<le> msPerDay"
    by (simp add: fixed_zone_def msPerDay_def)
  show ?thesis
    using
      added_expense_first_in_views [of
        "\<lparr>db = Some \<lparr>rows = [\<lparr>row_id = 1, row_amount = Finite 3, row_category = ''Books'',
                             row_note = None, row_date = ''2024-03-08''\<rparr>],
                    sqlite_sequence = 1\<rparr>,
         expenses = [\<lparr>row_id = 1, row_amount = Finite 3, row_category = ''Books'',
                      row_note = None, row_date = ''2024-03-08''\<rparr>],
         amount = ''12.50'', category = ''Food'', note' = [], dateFilter = ''all''\<rparr>"
        "\<lparr>rows = [\<lparr>row_id = 1, row_amount = Finite 3, row_category = ''Books'',
                             row_note = None, row_date = ''2024-03-08''\<rparr>],
                    sqlite_sequence = 1\<rparr>"
        1710504000000 1710504000000 "fixed_zone 0", OF _ _ _ _ h _ _ _ _ z]
    by (simp add: date_string_noon next_id_def msPerDay_def fixed_zone_def) blast
qed

subsection \<open>When the submission is blocked (C8)\<close>

text \<open>
  Claim C8, as stated, has every submission with a non-numeric amount blocked and the
  state left as it was. The amount \<open>12abc\<close> is not numeric, yet it passes the validation:
  on a table with one row, the row for \<open>12\<close> is inserted, the three form fields are
  cleared and the loaded list is replaced.
\<close>

theorem addExpense_12abc_changes_state_counterexample:
  "\<not> numeric_input ''12abc'' \<and>
   addExpense 1710504000000
     \<lparr>db = Some \<lparr>rows = [\<lparr>row_id = 1, row_amount = Finite 3, row_category = ''Books'',
                          row_note = None, row_date = ''2024-03-08''\<rparr>],
                 sqlite_sequence = 1\<rparr>,
      expenses = [\<lparr>row_id = 1, row_amount = Finite 3, row_category = ''Books'',
                   row_note = None, row_date = ''2024-03-08''\<rparr>],
      amount = ''12abc'', category = ''Food'', note' = ''lunch'', dateFilter = ''all''\<rparr>
   = (Nothing,
      \<lparr>db = Some \<lparr>rows = [\<lparr>row_id = 1, row_amount = Finite 3, row_category = ''Books'',
                           row_note = None, row_date = ''2024-03-08''\<rparr>,
                          \<lparr>row_id = 2, row_amount = Finite 12, row_category = ''Food'',
                           row_note = Some ''lunch'', row_date = ''2024-03-15''\<rparr>],
                  sqlite_sequence = 2\<rparr>,
       expenses = [\<lparr>row_id = 2, row_amount = Finite 12, row_category = ''Food'',
                    row_note = Some ''lunch'', row_date = ''2024-03-15''\<rparr>,
                   \<lparr>row_id = 1, row_amount = Finite 3, row_category = ''Books'',
                    row_note = None, row_date = ''2024-03-08''\<rparr>],
       amount = [], category = [], note' = [], dateFilter = ''all''\<rparr>)"
proof -
  have "gt_zero (parseFloat ''12abc'')" "trim ''Food'' \<noteq> []"
    by (simp_all add: parseFloat_12abc trim_Food gt_zero_def)
  then show ?thesis
    by (simp add: numeric_12abc addExpense_run parseFloat_12abc trim_Food trim_lunch
        date_string_noon next_id_def)
qed

text \<open>
  Claim C8, amended: the validation fails when the amount, leading white space aside,
  does not begin with a decimal literal, or when its parsed value is at most 0, or when
  the category is empty after trimming; then \<open>addExpense\<close> shows an alert and leaves the
  whole state as it was (no row is inserted; the form fields and the loaded list are
  unchanged). In every other case, on an existing table, the submission is not blocked:
  the row is inserted, the list is reloaded and the form fields are cleared, also for an
  amount that only begins with a number.
\<close>

theorem addExpense_blocks_exactly_on_failed_validation:
  "(StrDecimalLiteral (trimStart (amount s)) = None \<or> le_zero (parseFloat (amount s)) \<or>
    trim (category s) = [] \<longrightarrow>
      (\<exists>m. fst (addExpense now s) = Alert m) \<and>
      snd (addExpense now s) = s \<and>
      stored (snd (addExpense now s)) = stored s \<and>
      expenses (snd (addExpense now s)) = expenses s \<and>
      amount (snd (addExpense now s)) = amount s \<and>
      category (snd (addExpense now s)) = category s \<and>
      note' (snd (addExpense now s)) = note' s) \<and>
   (\<forall>t. db s = Some t \<longrightarrow>
      StrDecimalLiteral (trimStart (amount s)) \<noteq> None \<longrightarrow>
      \<not> le_zero (parseFloat (amount s)) \<longrightarrow> trim (category s) \<noteq> [] \<longrightarrow>
        fst (addExpense now s) = Nothing \<and>
        stored (snd (addExpense now s)) = rows t @ [new_expense now s t] \<and>
        expenses (snd (addExpense now s)) = order_by_date_desc (rows t @ [new_expense now s t]) \<and>
        amount (snd (addExpense now s)) = [] \<and>
        category (snd (addExpense now s)) = [] \<and>
        note' (snd (addExpense now s)) = [])"
proof -
  have 1: "(\<exists>m. fst (addExpense now s) = Alert m) \<and> snd (addExpense now s) = s"
    if f: "StrDecimalLiteral (trimStart (amount s)) = None \<or>
      le_zero (parseFloat (amount s)) \<or> trim (category s) = []"
  proof (cases "isNaN (parseFloat (amount s)) \<or> le_zero (parseFloat (amount s))")
    case True
    then show ?thesis by (simp add: addExpense_reject_amount)
  next
    case False
    then have "trim (category s) = []" using f by (auto simp: isNaN_parseFloat)
    then show ?thesis using False by (simp add: addExpense_reject_category)
  qed
  have 2: "addExpense now s =
      (Nothing,
       s\<lparr>db := Some \<lparr>rows = rows t @ [new_expense now s t], sqlite_sequence = next_id t\<rparr>,
         amount := [], category := [], note' := [],
         expenses := order_by_date_desc (rows t @ [new_expense now s t])\<rparr>)"
    if v: "db s = Some t" "StrDecimalLiteral (trimStart (amount s)) \<noteq> None"
      "\<not> le_zero (parseFloat (amount s))" "trim (category s) \<noteq> []" for t
  proof -
    have n: "\<not> isNaN (parseFloat (amount s))"
      using v(2) by (simp add: isNaN_parseFloat)
    show ?thesis by (rule addExpense_accept [OF n v(3) v(4) v(1)])
  qed
  show ?thesis
  proof (intro conjI allI impI)
    fix t
    assume v: "db s = Some t" "StrDecimalLiteral (trimStart (amount s)) \<noteq> None"
      "\<not> le_zero (parseFloat (amount s))" "trim (category s) \<noteq> []"
    note a = 2 [OF v]
    show "fst (addExpense now s) = Nothing"
      and "stored (snd (addExpense now s)) = rows t @ [new_expense now s t]"
      and "expenses (snd (addExpense now s)) = order_by_date_desc (rows t @ [new_expense now s t])"
      and "amount (snd (addExpense now s)) = []"
      and "category (snd (addExpense now s)) = []"
      and "note' (snd (addExpense now s)) = []"
      by (simp_all add: a stored_def)
  qed (use 1 in simp_all)
qed

text \<open>
  Witness for C8: the amounts \<open>abc\<close> and \<open>-3\<close>, and a category of three spaces, each
  leave the screen as it was; the amount \<open>12.50\<close> with the category \<open>Food\<close> inserts the
  row and clears the amount field.
\<close>

theorem addExpense_blocks_exactly_on_failed_validation_witness:
  "StrDecimalLiteral (trimStart ''abc'') = None \<and>
   snd (addExpense 1710504000000
         \<lparr>db = Some \<lparr>rows = [], sqlite_sequence = 0\<rparr>, expenses = [], amount = ''abc'',
          category = ''Food'', note' = ''x'', dateFilter = ''all''\<rparr>)
     = \<lparr>db = Some \<lparr>rows = [], sqlite_sequence = 0\<rparr>, expenses = [], amount = ''abc'',
        category = ''Food'', note' = ''x'', dateFilter = ''all''\<rparr> \<and>
   le_zero (parseFloat ''-3'') \<and>
   snd (addExpense 1710504000000
         \<lparr>db = Some \<lparr>rows = [], sqlite_sequence = 0\<rparr>, expenses = [], amount = ''-3'',
          category = ''Food'', note' = ''x'', dateFilter = ''all''\<rparr>)
     = \<lparr>db = Some \<lparr>rows = [], sqlite_sequence = 0\<rparr>, expenses = [], amount = ''-3'',
        category = ''Food'', note' = ''x'', dateFilter = ''all''\<rparr> \<and>
   trim ''   '' = [] \<and>
   snd (addExpense 1710504000000
         \<lparr>db = Some \<lparr>rows = [], sqlite_sequence = 0\<rparr>, expenses = [], amount = ''12.50'',
          category = ''   '', note' = ''x'', dateFilter = ''all''\<rparr>)
     = \<lparr>db = Some \<lparr>rows = [], sqlite_sequence = 0\<rparr>, expenses = [], amount = ''12.50'',
        category = ''   '', note' = ''x'', dateFilter = ''all''\<rparr> \<and>
   StrDecimalLiteral (trimStart ''12.50'') \<noteq> None \<and> \<not> le_zero (parseFloat ''12.50'') \<and>
   trim ''Food'' \<noteq> [] \<and>
   fst (addExpense 1710504000000
         \<lparr>db = Some \<lparr>rows = [], sqlite_sequence = 0\<rparr>, expenses = [], amount = ''12.50'',
          category = ''Food'', note' = ''x'', dateFilter = ''all''\<rparr>) = Nothing \<and>
   stored (snd (addExpense 1710504000000
         \<lparr>db = Some \<lparr>rows = [], sqlite_sequence = 0\<rparr>, expenses = [], amount = ''12.50'',
          category = ''Food'', note' = ''x'', dateFilter = ''all''\<rparr>))
     = [\<lparr>row_id = 1, row_amount = Finite (25 / 2), row_category = ''Food'',
         row_note = Some ''x'', row_date = ''2024-03-15''\<rparr>] \<and>
   amount (snd (addExpense 1710504000000
         \<lparr>db = Some \<lparr>rows = [], sqlite_sequence = 0\<rparr>, expenses = [], amount = ''12.50'',
          category = ''Food'', note' = ''x'', dateFilter = ''all''\<rparr>)) = []"
proof -
  let ?ok = "\<lparr>db = Some \<lparr>rows = [], sqlite_sequence = 0\<rparr>, expenses = [], amount = ''12.50'',
          category = ''Food'', note' = ''x'', dateFilter = ''all''\<rparr>"
  have x: "trim ''x'' = ''x''"
    by (simp add: trim_def trimEnd_def StrWhiteSpaceChar_def)
  have n: "new_expense 1710504000000 ?ok \<lparr>rows = [], sqlite_sequence = 0\<rparr> =
      \<lparr>row_id = 1, row_amount = Finite (25 / 2), row_category = ''Food'',
       row_note = Some ''x'', row_date = ''2024-03-15''\<rparr>"
    by (simp add: new_expense_def parseFloat_12_50 trim_Food x split_T_0_toISOString
        date_string_noon next_id_def)
  show ?thesis
    using
      addExpense_blocks_exactly_on_failed_validation [of
        "\<lparr>db = Some \<lparr>rows = [], sqlite_sequence = 0\<rparr>, expenses = [], amount = ''abc'',
          category = ''Food'', note' = ''x'', dateFilter = ''all''\<rparr>" 1710504000000]
      addExpense_blocks_exactly_on_failed_validation [of
        "\<lparr>db = Some \<lparr>rows = [], sqlite_sequence = 0\<rparr>, expenses = [], amount = ''-3'',
          category = ''Food'', note' = ''x'', dateFilter = ''all''\<rparr>" 1710504000000]
      addExpense_blocks_exactly_on_failed_validation [of
        "\<lparr>db = Some \<lparr>rows = [], sqlite_sequence = 0\<rparr>, expenses = [], amount = ''12.50'',
          category = ''   '', note' = ''x'', dateFilter = ''all''\<rparr>" 1710504000000]
      addExpense_blocks_exactly_on_failed_validation [of ?ok 1710504000000]
    by (simp add: literal_abc le_zero_m3 trim_blank literal_12_50 not_le_zero_12_50 trim_Food n)
qed

subsection \<open>Every launch discards the data (C9)\<close>

text \<open>
  Claim C9: whatever the database and the screen held before, after the setup of the
  mounted screen the table exists and is empty, the loaded list is empty, and loading
  again changes nothing.
\<close>

theorem setup_discards_prior_data:
  "db (setup_effect s) = Some \<lparr>rows = [], sqlite_sequence = 0\<rparr> \<and>
   stored (setup_effect s) = [] \<and>
   expenses (setup_effect s) = [] \<and>
   loadExpenses (setup_effect s) = Inr (setup_effect s)"
  by (simp add: setup_effect_def drop_table_def create_table_def loadExpenses_def
      select_expenses_def stored_def Let_def)

text \<open>
  Witness for C9: a screen over a table with one row has no row left after the setup.
\<close>

theorem setup_discards_prior_data_witness:
  "expenses (setup_effect
     \<lparr>db = Some \<lparr>rows = [\<lparr>row_id = 1, row_amount = Finite 3, row_category = ''Books'',
                          row_note = None, row_date = ''2024-03-15''\<rparr>],
                 sqlite_sequence = 1\<rparr>,
      expenses = [\<lparr>row_id = 1, row_amount = Finite 3, row_category = ''Books'',
                   row_note = None, row_date = ''2024-03-15''\<rparr>],
      amount = [], category = [], note' = [], dateFilter = ''all''\<rparr>) = [] \<and>
   stored (setup_effect
     \<lparr>db = Some \<lparr>rows = [\<lparr>row_id = 1, row_amount = Finite 3, row_category = ''Books'',
                          row_note = None, row_date = ''2024-03-15''\<rparr>],
                 sqlite_sequence = 1\<rparr>,
      expenses = [\<lparr>row_id = 1, row_amount = Finite 3, row_category = ''Books'',
                   row_note = None, row_date = ''2024-03-15''\<rparr>],
      amount = [], category = [], note' = [], dateFilter = ''all''\<rparr>) = []"
  using setup_discards_prior_data [of
     "\<lparr>db = Some \<lparr>rows = [\<lparr>row_id = 1, row_amount = Finite 3, row_category = ''Books'',
                          row_note = None, row_date = ''2024-03-15''\<rparr>],
                 sqlite_sequence = 1\<rparr>,
      expenses = [\<lparr>row_id = 1, row_amount = Finite 3, row_category = ''Books'',
                   row_note = None, row_date = ''2024-03-15''\<rparr>],
      amount = [], category = [], note' = [], dateFilter = ''all''\<rparr>"]
  by simp

subsection \<open>Any other selector filters nothing (C10)\<close>

text \<open>
  Claim C10: for every selector other than \<open>week\<close> and \<open>month\<close>, at every time and in
  every zone, \<open>getFilteredExpenses\<close> returns the loaded list as it is.
\<close>

theorem getFilteredExpenses_other_selector:
  assumes "dateFilter s \<noteq> ''week''" and "dateFilter s \<noteq> ''month''"
  shows "getFilteredExpenses rt now s = expenses s"
  using assms by (simp add: getFilteredExpenses_def)

text \<open>
  Witness for C10: with the selectors \<open>all\<close> and \<open>year\<close>, rows as old as 1999 are
  returned.
\<close>

theorem getFilteredExpenses_other_selector_witness:
  "''all'' \<noteq> ''week'' \<and> ''all'' \<noteq> ''month'' \<and> ''year'' \<noteq> ''week'' \<and> ''year'' \<noteq> ''month'' \<and>
   getFilteredExpenses (fixed_zone 0) 1710504000000
     \<lparr>db = None,
      expenses = [\<lparr>row_id = 2, row_amount = Finite 3, row_category = ''Books'',
                   row_note = Some ''x'', row_date = ''2024-03-15''\<rparr>,
                  \<lparr>row_id = 1, row_amount = Finite 12, row_category = ''Food'',
                   row_note = None, row_date = ''1999-12-31''\<rparr>],
      amount = [], category = [], note' = [], dateFilter = ''all''\<rparr>
   = [\<lparr>row_id = 2, row_amount = Finite 3, row_category = ''Books'',
        row_note = Some ''x'', row_date = ''2024-03-15''\<rparr>,
      \<lparr>row_id = 1, row_amount = Finite 12, row_category = ''Food'',
        row_note = None, row_date = ''1999-12-31''\<rparr>] \<and>
   getFilteredExpenses (fixed_zone 0) 1710504000000
     \<lparr>db = None,
      expenses = [\<lparr>row_id = 1, row_amount = Finite 12, row_category = ''Food'',
                   row_note = None, row_date = ''1999-12-31''\<rparr>],
      amount = [], category = [], note' = [], dateFilter = ''year''\<rparr>
   = [\<lparr>row_id = 1, row_amount = Finite 12, row_category = ''Food'',
        row_note = None, row_date = ''1999-12-31''\<rparr>]"
  using getFilteredExpenses_other_selector [of
      "\<lparr>db = None,
        expenses = [\<lparr>row_id = 2, row_amount = Finite 3, row_category = ''Books'',
                     row_note = Some ''x'', row_date = ''2024-03-15''\<rparr>,
                    \<lparr>row_id = 1, row_amount = Finite 12, row_category = ''Food'',
                     row_note = None, row_date = ''1999-12-31''\<rparr>],
        amount = [], category = [], note' = [], dateFilter = ''all''\<rparr>"
      "fixed_zone 0" 1710504000000]
    getFilteredExpenses_other_selector [of
      "\<lparr>db = None,
        expenses = [\<lparr>row_id = 1, row_amount = Finite 12, row_category = ''Food'',
                     row_note = None, row_date = ''1999-12-31''\<rparr>],
        amount = [], category = [], note' = [], dateFilter = ''year''\<rparr>"
      "fixed_zone 0" 1710504000000]
  by simp

end
